theory Spec2Isabelle
  imports Main "HOL-Library.AList" "HOL-Library.Sublist" "HOL-Library.Word"
begin

section \<open>Python values, dictionaries and instances\<close>

text \<open>
  The values that the attributes of a \<open>DataStore\<close> hold: \<open>None\<close> (the absent
  sentinel), Python integers, strings, numeric \<open>ndarray\<close>s of one and of two
  dimensions, dictionaries with string keys, and the key view \<open>kwargs.keys()\<close>
  that \<open>DataStore.__init__\<close> binds to \<open>data_names\<close>.  None of them is callable.
  A two-dimensional array carries its number of columns next to its rows, so
  that the shape \<open>(0, m)\<close> is represented; it is well formed when every row has
  that length.  Array entries are 64-bit integers (dtype \<open>int64\<close>, whose
  arithmetic wraps around); arrays of \<open>float64\<close> and their rounding are outside
  the model.
\<close>

datatype pyval =
    PNone
  | PNum int
  | PStr string
  | PArr1 "64 word list"
  | PArr2 nat "64 word list list"
  | PDict "(string \<times> pyval) list"
  | PKeys "string list"

text \<open>
  A \<open>dict\<close> is an association list in insertion order; a well-formed one has
  distinct keys.  \<open>d[k] = v\<close> is \<^const>\<open>AList.update\<close>: it replaces the value of a
  key in place and appends a new key at the end.
\<close>

type_synonym dict = "(string \<times> pyval) list"

datatype error =
    KeyError string
  | AttributeError string
  | IndexError
  | TypeError
  | ValueError

definition dict_pop :: "dict \<Rightarrow> string \<Rightarrow> error + (pyval \<times> dict)" where
  "dict_pop d k =
     (case map_of d k of
        None \<Rightarrow> Inl (KeyError k)
      | Some v \<Rightarrow> Inr (v, AList.delete k d))"

definition dict_update :: "dict \<Rightarrow> dict \<Rightarrow> dict" where
  "dict_update d other = fold (\<lambda>(k, v) acc. AList.update k v acc) other d"

text \<open>
  An instance is its \<open>__dict__\<close>: every attribute, \<open>data_names\<close> included, lives
  in this one namespace, which is what \<open>setattr\<close> writes and what
  \<open>_get_data_dict\<close> iterates.

  \<open>getattr\<close> is the read \<open>self.name\<close> of a name that neither class defines, as
  are the five that the source reads (\<open>param_name\<close>, \<open>param_vals\<close>,
  \<open>system_params\<close>, \<open>data_names\<close>, \<open>energy_table\<close>): the entry of \<open>__dict__\<close>, or
  \<open>AttributeError\<close>.
\<close>

type_synonym obj = dict

definition getattr :: "obj \<Rightarrow> string \<Rightarrow> error + pyval" where
  "getattr self name =
     (case map_of self name of
        None \<Rightarrow> Inl (AttributeError name)
      | Some v \<Rightarrow> Inr v)"

text \<open>
  An assignment \<open>self.name = v\<close> as the source writes it, with an ordinary name
  spelled out in the statement: it stores the entry in \<open>__dict__\<close>.
\<close>

definition assign :: "obj \<Rightarrow> string \<Rightarrow> pyval \<Rightarrow> obj" where
  "assign self name v = AList.update name v self"

text \<open>
  \<open>setattr(self, name, v)\<close> with a name computed at run time.  Three names are
  data descriptors of every instance and never reach \<open>__dict__\<close> as entries:
  \<open>__dict__\<close> replaces the whole namespace by the dictionary given and refuses
  any other value with \<open>TypeError\<close>; \<open>__class__\<close> takes a class only, which no
  value here is (\<open>TypeError\<close>); \<open>__weakref__\<close> is not writable
  (\<open>AttributeError\<close>).  Every other name is stored as an entry, also when it is
  the name of a method.
\<close>

definition special_attributes :: "string list" where
  "special_attributes = [''__dict__'', ''__class__'', ''__weakref__'']"

definition setattr :: "obj \<Rightarrow> string \<Rightarrow> pyval \<Rightarrow> error + obj" where
  "setattr self name v =
     (if name = ''__dict__'' then (case v of PDict d \<Rightarrow> Inr d | _ \<Rightarrow> Inl TypeError)
      else if name = ''__class__'' then Inl TypeError
      else if name = ''__weakref__'' then Inl (AttributeError ''__weakref__'')
      else Inr (AList.update name v self))"

text \<open>
  A call \<open>self.m(...)\<close> looks \<open>m\<close> up on the instance first: an entry of
  \<open>__dict__\<close> under the name of a method shadows the method, and calling the
  value found there is a \<open>TypeError\<close>, no value being callable.
\<close>

definition shadowed :: "obj \<Rightarrow> string \<Rightarrow> bool" where
  "shadowed self m = (m \<in> set (map fst self))"

text \<open>\<open>len(v)\<close>: the first dimension of an array, the number of entries otherwise.\<close>

definition py_len :: "pyval \<Rightarrow> error + nat" where
  "py_len v =
     (case v of
        PNone \<Rightarrow> Inl TypeError
      | PNum n \<Rightarrow> Inl TypeError
      | PStr s \<Rightarrow> Inr (length s)
      | PArr1 xs \<Rightarrow> Inr (length xs)
      | PArr2 ncols rows \<Rightarrow> Inr (length rows)
      | PDict d \<Rightarrow> Inr (length d)
      | PKeys ks \<Rightarrow> Inr (length ks))"

text \<open>
  \<open>key in v\<close> for a string \<open>key\<close>: membership in a key view or a dictionary,
  the substring test on a string, \<open>False\<close> on a numeric array (no entry equals
  a string), and a \<open>TypeError\<close> on a value that is not a container.
\<close>

definition py_contains :: "pyval \<Rightarrow> string \<Rightarrow> error + bool" where
  "py_contains v key =
     (case v of
        PNone \<Rightarrow> Inl TypeError
      | PNum n \<Rightarrow> Inl TypeError
      | PStr s \<Rightarrow> Inr (sublist key s)
      | PArr1 xs \<Rightarrow> Inr False
      | PArr2 ncols rows \<Rightarrow> Inr False
      | PDict d \<Rightarrow> Inr (key \<in> set (map fst d))
      | PKeys ks \<Rightarrow> Inr (key \<in> set ks))"

section \<open>The constructors\<close>

text \<open>
  The loop \<open>for key, value in kwargs.items(): setattr(self, key, value)\<close> of
  \<open>DataStore.__init__\<close>: it stops at the first \<open>setattr\<close> that raises.
\<close>

fun bind_kwargs :: "(string \<times> pyval) list \<Rightarrow> obj \<Rightarrow> error + obj" where
  "bind_kwargs [] self = Inr self"
| "bind_kwargs ((key, v) # items) self =
     (case setattr self key v of
        Inl e \<Rightarrow> Inl e
      | Inr self' \<Rightarrow> bind_kwargs items self')"

text \<open>
  \<open>DataStore.__init__(self, param_name, param_vals, system_params, **kwargs)\<close>,
  on a fresh instance.  An exception leaves the caller without an instance.
\<close>

definition DataStore_init :: "pyval \<Rightarrow> pyval \<Rightarrow> pyval \<Rightarrow> dict \<Rightarrow> error + obj" where
  "DataStore_init param_name param_vals system_params kwargs =
     (let self = assign [] ''param_name'' param_name;
          self = assign self ''param_vals'' param_vals;
          self = assign self ''system_params'' system_params;
          self = assign self ''data_names'' (PKeys (map fst kwargs))
      in bind_kwargs kwargs self)"

text \<open>
  The call \<open>DataStore(param_name, param_vals, system_params, **kwargs)\<close>: a
  keyword that names one of the signature's own parameters is refused with a
  \<open>TypeError\<close> (multiple values for the argument), so such a name never reaches
  \<open>kwargs\<close>.
\<close>

definition DataStore_params :: "string list" where
  "DataStore_params = [''self'', ''param_name'', ''param_vals'', ''system_params'']"

definition DataStore_new :: "pyval \<Rightarrow> pyval \<Rightarrow> pyval \<Rightarrow> dict \<Rightarrow> error + obj" where
  "DataStore_new param_name param_vals system_params kwargs =
     (if set (map fst kwargs) \<inter> set DataStore_params = {}
      then DataStore_init param_name param_vals system_params kwargs
      else Inl TypeError)"

text \<open>
  \<open>SpectrumData.__init__(self, param_name, param_vals, energy_table, system_params,
  state_table=None, matrixelem_table=None)\<close>: the base initialiser is called with no
  keyword, then the three tables are assigned.
\<close>

definition SpectrumData_init ::
  "pyval \<Rightarrow> pyval \<Rightarrow> pyval \<Rightarrow> pyval \<Rightarrow> pyval \<Rightarrow> pyval \<Rightarrow> error + obj" where
  "SpectrumData_init param_name param_vals energy_table system_params state_table
       matrixelem_table =
     (case DataStore_init param_name param_vals system_params [] of
        Inl e \<Rightarrow> Inl e
      | Inr self \<Rightarrow>
          (let self = assign self ''energy_table'' energy_table;
               self = assign self ''state_table'' state_table
           in Inr (assign self ''matrixelem_table'' matrixelem_table)))"

text \<open>
  The class a classmethod receives, and the call
  \<open>cls(param_name=..., param_vals=..., system_params=..., **data_dict)\<close> of
  \<open>_init_from_data\<close>.  \<open>SpectrumData\<close> takes no \<open>**kwargs\<close>: a keyword outside its
  signature and a missing \<open>energy_table\<close> are \<open>TypeError\<close>s, and the two optional
  tables default to \<open>None\<close>.
\<close>

datatype cls = DataStore | SpectrumData

definition SpectrumData_tables :: "string list" where
  "SpectrumData_tables = [''energy_table'', ''state_table'', ''matrixelem_table'']"

definition keyword_or_None :: "dict \<Rightarrow> string \<Rightarrow> pyval" where
  "keyword_or_None kwargs name = (case map_of kwargs name of None \<Rightarrow> PNone | Some v \<Rightarrow> v)"

definition cls_call :: "cls \<Rightarrow> pyval \<Rightarrow> pyval \<Rightarrow> pyval \<Rightarrow> dict \<Rightarrow> error + obj" where
  "cls_call c param_name param_vals system_params data_dict =
     (case c of
        DataStore \<Rightarrow> DataStore_new param_name param_vals system_params data_dict
      | SpectrumData \<Rightarrow>
          (if set (map fst data_dict) \<subseteq> set SpectrumData_tables
           then (case map_of data_dict ''energy_table'' of
                   None \<Rightarrow> Inl TypeError
                 | Some energy_table \<Rightarrow>
                     SpectrumData_init param_name param_vals energy_table system_params
                       (keyword_or_None data_dict ''state_table'')
                       (keyword_or_None data_dict ''matrixelem_table''))
           else Inl TypeError))"

section \<open>\<open>DataStore\<close>: counting, serializing, populating, reconstructing\<close>

text \<open>The call \<open>self.param_count()\<close>, whose body is \<open>return len(self.param_vals)\<close>.\<close>

definition param_count :: "obj \<Rightarrow> error + nat" where
  "param_count self =
     (if shadowed self ''param_count'' then Inl TypeError
      else (case getattr self ''param_vals'' of
              Inl e \<Rightarrow> Inl e
            | Inr param_vals \<Rightarrow> py_len param_vals))"

text \<open>
  The body of \<open>_get_metadata_dict\<close>.  The helper \<open>process_metadata\<close> of
  \<open>scqubits.utils.misc\<close> is not among the sources: it is a parameter.
\<close>

definition get_metadata_dict :: "(pyval \<Rightarrow> dict) \<Rightarrow> obj \<Rightarrow> error + dict" where
  "get_metadata_dict process_metadata self =
     (case getattr self ''param_name'' of
        Inl e \<Rightarrow> Inl e
      | Inr param_name \<Rightarrow>
     (case getattr self ''param_vals'' of
        Inl e \<Rightarrow> Inl e
      | Inr param_vals \<Rightarrow>
     (case getattr self ''system_params'' of
        Inl e \<Rightarrow> Inl e
      | Inr system_params \<Rightarrow>
          Inr (dict_update [(''param_name'', param_name), (''param_vals'', param_vals)]
                 (process_metadata system_params)))))"

text \<open>
  The body of \<open>_get_data_dict\<close>: the comprehension over \<open>self.__dict__.items()\<close>,
  which evaluates \<open>key in self.data_names\<close> at every item.
\<close>

fun select_data :: "obj \<Rightarrow> (string \<times> pyval) list \<Rightarrow> error + dict" where
  "select_data self [] = Inr []"
| "select_data self ((key, v) # items) =
     (case getattr self ''data_names'' of
        Inl e \<Rightarrow> Inl e
      | Inr data_names \<Rightarrow>
     (case py_contains data_names key of
        Inl e \<Rightarrow> Inl e
      | Inr member \<Rightarrow>
     (case select_data self items of
        Inl e \<Rightarrow> Inl e
      | Inr rest \<Rightarrow> Inr (if member then (key, v) # rest else rest))))"

definition get_data_dict :: "obj \<Rightarrow> error + dict" where
  "get_data_dict self = select_data self self"

text \<open>
  Modelled from the spec: \<open>value_not_none\<close> of \<open>scqubits.utils.misc\<close> is not among
  the sources.  The spec has the serializer filter out every data field whose
  current value is the absent sentinel; the predicate is applied to a
  \<open>(key, value)\<close> item.
\<close>

definition value_not_none :: "string \<times> pyval \<Rightarrow> bool" where
  "value_not_none key_value = (snd key_value \<noteq> PNone)"

text \<open>
  Modelled from the spec: the writer of \<open>scqubits.utils.file_io\<close> is not among the
  sources.  The spec gives it two capabilities: \<open>create_meta\<close> persists a single
  metadata record, \<open>add_dataset\<close> persists one named array and may be called
  several times.  The model records what was handed over, datasets in call
  order.
\<close>

record writer =
  meta :: "dict option"
  datasets :: "(string \<times> pyval) list"

definition new_writer :: writer where
  "new_writer = \<lparr>meta = None, datasets = []\<rparr>"

definition create_meta :: "writer \<Rightarrow> dict \<Rightarrow> writer" where
  "create_meta w metadata_dict = w\<lparr>meta := Some metadata_dict\<rparr>"

definition add_dataset :: "writer \<Rightarrow> string \<Rightarrow> pyval \<Rightarrow> writer" where
  "add_dataset w name array = w\<lparr>datasets := datasets w @ [(name, array)]\<rparr>"

text \<open>
  Modelled from the spec: the reader of \<open>scqubits.utils.file_io\<close> is not among the
  sources.  The spec has it return the metadata mapping, the ordered list of
  dataset names and the ordered list of arrays, \<open>names[i]\<close> belonging to
  \<open>arrays[i]\<close>; a file without a metadata record is a read failure.
\<close>

definition read_file :: "writer \<Rightarrow> (dict \<times> string list \<times> pyval list) option" where
  "read_file w =
     (case meta w of
        None \<Rightarrow> None
      | Some metadata_dict \<Rightarrow> Some (metadata_dict, map fst (datasets w), map snd (datasets w)))"

text \<open>
  The call \<open>self._serialize(writer)\<close>, with the two calls
  \<open>self._get_metadata_dict()\<close> and \<open>self._get_data_dict()\<close> that its body makes.
  The helper \<open>convert_to_ndarray\<close> of \<open>scqubits.utils.misc\<close> is not among the
  sources: it is a parameter.  The result is the instance and the writer after
  the call and the exception raised, if any.  Neither \<open>_serialize\<close> nor the two
  methods it calls assign an attribute, so the instance is returned as it was.
\<close>

definition serialize ::
  "(pyval \<Rightarrow> dict) \<Rightarrow> (pyval \<Rightarrow> pyval) \<Rightarrow> obj \<Rightarrow> writer
     \<Rightarrow> obj \<times> writer \<times> error option" where
  "serialize process_metadata convert_to_ndarray self w =
     (if shadowed self ''_serialize'' then (self, w, Some TypeError)
      else if shadowed self ''_get_metadata_dict'' then (self, w, Some TypeError)
      else
     (case get_metadata_dict process_metadata self of
        Inl e \<Rightarrow> (self, w, Some e)
      | Inr metadata_dict \<Rightarrow>
          (let w1 = create_meta w metadata_dict in
           if shadowed self ''_get_data_dict'' then (self, w1, Some TypeError)
           else
           (case get_data_dict self of
              Inl e \<Rightarrow> (self, w1, Some e)
            | Inr data_dict \<Rightarrow>
                (self,
                 fold (\<lambda>(data_name, data) w2. add_dataset w2 data_name (convert_to_ndarray data))
                   (filter value_not_none data_dict) w1,
                 None)))))"

text \<open>The methods that a call of \<open>_serialize\<close> looks up on the instance.\<close>

definition serialize_methods :: "string list" where
  "serialize_methods = [''_serialize'', ''_get_metadata_dict'', ''_get_data_dict'']"

text \<open>
  The loop \<open>for index, attribute in enumerate(name_list): setattr(self, attribute,
  data_list[index])\<close> of \<open>set_from_data\<close>, from position \<open>index\<close> on.  An index past
  the end of \<open>data_list\<close> raises \<open>IndexError\<close> before \<open>setattr\<close> is called; what
  was bound before an exception stays bound.
\<close>

fun bind_attributes :: "pyval list \<Rightarrow> nat \<Rightarrow> string list \<Rightarrow> obj \<Rightarrow> obj \<times> error option" where
  "bind_attributes data_list index [] self = (self, None)"
| "bind_attributes data_list index (attribute # name_list) self =
     (if index < length data_list
      then (case setattr self attribute (data_list ! index) of
              Inl e \<Rightarrow> (self, Some e)
            | Inr self' \<Rightarrow> bind_attributes data_list (Suc index) name_list self')
      else (self, Some IndexError))"

text \<open>
  The call \<open>self.set_from_data(metadata_dict, name_list, data_list)\<close>: the
  instance after the call and the exception raised, if any.  The instance is
  mutated in place, so every assignment made before an exception is visible to
  the caller.  (The caller's \<open>metadata_dict\<close> loses the two popped keys and is the
  very object bound to \<open>system_params\<close>, and a dictionary bound through the name
  \<open>__dict__\<close> is the very object that later assignments write; this sharing is
  not tracked, and nothing below depends on it.)
\<close>

fun set_from_data ::
  "obj \<Rightarrow> dict \<times> string list \<times> pyval list \<Rightarrow> obj \<times> error option" where
  "set_from_data self (metadata_dict, name_list, data_list) =
     (if shadowed self ''set_from_data'' then (self, Some TypeError)
      else
     (case dict_pop metadata_dict ''param_name'' of
        Inl e \<Rightarrow> (self, Some e)
      | Inr (param_name, metadata_dict1) \<Rightarrow>
          (let self1 = assign self ''param_name'' param_name in
           (case dict_pop metadata_dict1 ''param_vals'' of
              Inl e \<Rightarrow> (self1, Some e)
            | Inr (param_vals, metadata_dict2) \<Rightarrow>
                (let self2 = assign self1 ''param_vals'' param_vals;
                     self3 = assign self2 ''system_params'' (PDict metadata_dict2)
                 in bind_attributes data_list 0 name_list self3)))))"

text \<open>
  The comprehension \<open>{name: data_list[i] for i, name in enumerate(name_list)}\<close> of
  \<open>_init_from_data\<close>, from position \<open>i\<close> on, with the dictionary built so far.
\<close>

fun collect_data :: "pyval list \<Rightarrow> nat \<Rightarrow> string list \<Rightarrow> dict \<Rightarrow> error + dict" where
  "collect_data data_list i [] data_dict = Inr data_dict"
| "collect_data data_list i (name # name_list) data_dict =
     (if i < length data_list
      then collect_data data_list (Suc i) name_list
             (AList.update name (data_list ! i) data_dict)
      else Inl IndexError)"

text \<open>
  \<open>_init_from_data(cls, metadata_dict, name_list, data_list)\<close>, a classmethod: it
  is called on the class, where no instance attribute can shadow it.
\<close>

fun init_from_data :: "cls \<Rightarrow> dict \<times> string list \<times> pyval list \<Rightarrow> error + obj" where
  "init_from_data c (metadata_dict, name_list, data_list) =
     (case dict_pop metadata_dict ''param_name'' of
        Inl e \<Rightarrow> Inl e
      | Inr (param_name, metadata_dict1) \<Rightarrow>
     (case dict_pop metadata_dict1 ''param_vals'' of
        Inl e \<Rightarrow> Inl e
      | Inr (param_vals, metadata_dict2) \<Rightarrow>
     (case collect_data data_list 0 name_list [] of
        Inl e \<Rightarrow> Inl e
      | Inr data_dict \<Rightarrow>
          cls_call c param_name param_vals (PDict metadata_dict2) data_dict)))"

section \<open>\<open>SpectrumData.subtract_ground\<close>\<close>

text \<open>
  \<open>a -= b\<close> for \<open>a\<close> of shape \<open>(n, ncols)\<close> and \<open>b\<close> of shape \<open>(length b,)\<close>.
  NumPy aligns shapes from the last axis: \<open>b\<close> runs along the columns of \<open>a\<close>.
  It fits when it has \<open>ncols\<close> entries, or a single entry that is repeated; any
  other length is a \<open>ValueError\<close>.  The right operand is read before \<open>a\<close> is
  written (NumPy copies an operand that overlaps the output).  The subtraction
  is that of \<open>int64\<close>: it wraps around.
\<close>

definition broadcast_isub ::
  "nat \<Rightarrow> 64 word list list \<Rightarrow> 64 word list \<Rightarrow> error + 64 word list list" where
  "broadcast_isub ncols rows b =
     (if length b = ncols then Inr (map (\<lambda>row. map2 (-) row b) rows)
      else if length b = 1 then Inr (map (\<lambda>row. map (\<lambda>x. x - b ! 0) row) rows)
      else Inl ValueError)"

text \<open>
  The call \<open>self.subtract_ground()\<close> on an instance of class \<open>c\<close>.  Only
  \<open>SpectrumData\<close> defines the method: on an instance of the base class the
  look-up finds the entry of \<open>__dict__\<close> under that name or raises
  \<open>AttributeError\<close>.  The body is
  \<open>self.energy_table -= self.energy_table[:, 0]\<close>.  The index \<open>[:, 0]\<close> needs two
  axes and at least one column (\<open>IndexError\<close> otherwise) and yields the first
  column, of shape \<open>(n,)\<close>; a value that is no array cannot be indexed so
  (\<open>TypeError\<close>).  The array is updated in place and the attribute rebound to
  it, only when the subtraction succeeds.  The model binds the attribute to
  the new contents and does not track other references to the same array: the
  spec has an instance own its arrays exclusively.
\<close>

definition subtract_ground :: "cls \<Rightarrow> obj \<Rightarrow> obj \<times> error option" where
  "subtract_ground c self =
     (if shadowed self ''subtract_ground'' then (self, Some TypeError)
      else if c = DataStore then (self, Some (AttributeError ''subtract_ground''))
      else
     (case getattr self ''energy_table'' of
        Inl e \<Rightarrow> (self, Some e)
      | Inr energy_table \<Rightarrow>
          (case energy_table of
             PArr2 ncols rows \<Rightarrow>
               (if ncols = 0 then (self, Some IndexError)
                else (case broadcast_isub ncols rows (map (\<lambda>row. row ! 0) rows) of
                        Inl e \<Rightarrow> (self, Some e)
                      | Inr rows' \<Rightarrow>
                          (assign self ''energy_table'' (PArr2 ncols rows'), None)))
           | PArr1 xs \<Rightarrow> (self, Some IndexError)
           | PNone \<Rightarrow> (self, Some TypeError)
           | PNum n \<Rightarrow> (self, Some TypeError)
           | PStr s \<Rightarrow> (self, Some TypeError)
           | PDict d \<Rightarrow> (self, Some TypeError)
           | PKeys ks \<Rightarrow> (self, Some TypeError))))"

text \<open>
  The transform as the spec words it, for comparison:
  \<open>energy_table[i] -= energy_table[i][0]\<close> for every sweep index \<open>i\<close>.
\<close>

definition subtract_ground_spec :: "64 word list list \<Rightarrow> 64 word list list" where
  "subtract_ground_spec rows = map (\<lambda>row. map (\<lambda>x. x - row ! 0) row) rows"

section \<open>Instances of the absent helpers\<close>

text \<open>
  Modelled from the spec: \<open>process_metadata\<close> and \<open>convert_to_ndarray\<close> of
  \<open>scqubits.utils.misc\<close> are not among the sources, and the functions above
  take them as parameters.  Where a concrete store is serialized below, the
  parameters are instantiated with a metadata codec that returns a mapping as it
  is and an array conversion that returns its argument as it is: what the spec
  says of the two helpers on a flat mapping and on a dense numeric array.
\<close>

definition metadata_as_is :: "pyval \<Rightarrow> dict" where
  "metadata_as_is system_params = (case system_params of PDict d \<Rightarrow> d | _ \<Rightarrow> [])"

definition array_as_is :: "pyval \<Rightarrow> pyval" where
  "array_as_is data = data"

section \<open>Dictionaries and attributes\<close>

lemma update_fresh: "k \<notin> set (map fst al) \<Longrightarrow> AList.update k v al = al @ [(k, v)]"
  by (induction al) auto

lemma fold_update_fresh:
  "distinct (map fst kw) \<Longrightarrow> set (map fst kw) \<inter> set (map fst b) = {} \<Longrightarrow>
   fold (\<lambda>(k, v) acc. AList.update k v acc) kw b = b @ kw"
proof (induction kw arbitrary: b)
  case Nil
  then show ?case by simp
next
  case (Cons p kw)
  obtain k v where p: "p = (k, v)" by (cases p)
  from Cons.prems have fresh: "k \<notin> set (map fst b)" by (auto simp: p)
  have "fold (\<lambda>(k, v) acc. AList.update k v acc) kw (b @ [(k, v)]) = (b @ [(k, v)]) @ kw"
    using Cons.prems by (intro Cons.IH) (auto simp: p)
  then show ?case by (simp add: p update_fresh [OF fresh])
qed

lemma map_of_fold_update_other:
  "k \<notin> set (map fst kw) \<Longrightarrow>
   map_of (fold (\<lambda>(key, v) acc. AList.update key v acc) kw self) k = map_of self k"
  by (induction kw arbitrary: self) (auto simp: update_conv')

lemma map_of_fold_update_member:
  "distinct (map fst kw) \<Longrightarrow> (k, v) \<in> set kw \<Longrightarrow>
   map_of (fold (\<lambda>(key, v) acc. AList.update key v acc) kw self) k = Some v"
proof (induction kw arbitrary: self)
  case Nil
  then show ?case by simp
next
  case (Cons p kw)
  show ?case
  proof (cases "p = (k, v)")
    case True
    with Cons.prems have "k \<notin> set (map fst kw)" by auto
    then show ?thesis by (simp add: True map_of_fold_update_other update_conv')
  next
    case False
    with Cons.prems have "(k, v) \<in> set kw" "distinct (map fst kw)" by auto
    then show ?thesis using Cons.IH by (cases p) simp
  qed
qed

lemma map_of_fold_zip_nth:
  "i < length names \<Longrightarrow> length names \<le> length vals \<Longrightarrow>
   names ! i \<notin> set (drop (Suc i) names) \<Longrightarrow>
   map_of (fold (\<lambda>(key, v) acc. AList.update key v acc) (zip names vals) self) (names ! i)
     = Some (vals ! i)"
proof (induction names arbitrary: vals self i)
  case Nil
  then show ?case by simp
next
  case (Cons n names)
  then obtain v vals' where vals: "vals = v # vals'" by (cases vals) auto
  show ?case
  proof (cases i)
    case 0
    with Cons.prems have "n \<notin> set (map fst (zip names vals'))"
      by (auto dest: set_zip_leftD)
    then show ?thesis
      by (simp add: 0 vals map_of_fold_update_other update_conv')
  next
    case (Suc j)
    with Cons.prems vals show ?thesis by (simp add: Cons.IH)
  qed
qed

lemma getattr_assign:
  "getattr (assign self k v) k' = (if k' = k then Inr v else getattr self k')"
  by (simp add: getattr_def assign_def update_conv')

lemma setattr_plain:
  "name \<notin> set special_attributes \<Longrightarrow> setattr self name v = Inr (AList.update name v self)"
  by (simp add: setattr_def special_attributes_def)

lemma getattr_setattr_other:
  "setattr self name v = Inr self' \<Longrightarrow> name \<noteq> k \<Longrightarrow> name \<noteq> ''__dict__'' \<Longrightarrow>
   getattr self' k = getattr self k"
  by (auto simp: setattr_def getattr_def update_conv' split: if_splits)

lemma dict_pop_missing:
  "k \<notin> set (map fst d) \<Longrightarrow> dict_pop d k = Inl (KeyError k)"
  by (simp add: dict_pop_def map_of_eq_None_iff [THEN iffD2])

lemma dict_pop_present:
  "map_of d k = Some v \<Longrightarrow> dict_pop d k = Inr (v, AList.delete k d)"
  by (simp add: dict_pop_def)

lemma keys_delete_other:
  "k' \<noteq> k \<Longrightarrow> k' \<in> set (map fst (AList.delete k d)) \<longleftrightarrow> k' \<in> set (map fst d)"
  by (simp add: delete_keys)

section \<open>Facts about the constructors and the loops\<close>

lemma bind_kwargs_plain:
  "set (map fst kw) \<inter> set special_attributes = {} \<Longrightarrow>
   bind_kwargs kw self = Inr (fold (\<lambda>(key, v) acc. AList.update key v acc) kw self)"
proof (induction kw arbitrary: self)
  case Nil
  then show ?case by simp
next
  case (Cons p kw)
  obtain k v where p: "p = (k, v)" by (cases p)
  from Cons.prems have "k \<notin> set special_attributes" by (auto simp: p)
  then have "setattr self k v = Inr (AList.update k v self)" by (rule setattr_plain)
  moreover from Cons.prems have "set (map fst kw) \<inter> set special_attributes = {}" by auto
  ultimately show ?case by (simp add: p Cons.IH)
qed

lemma DataStore_init_plain:
  assumes "set (map fst kwargs) \<inter> set special_attributes = {}"
  shows "DataStore_init pn pv sp kwargs =
     Inr (fold (\<lambda>(key, v) acc. AList.update key v acc) kwargs
            [(''param_name'', pn), (''param_vals'', pv), (''system_params'', sp),
             (''data_names'', PKeys (map fst kwargs))])"
  by (simp add: DataStore_init_def assign_def bind_kwargs_plain [OF assms])

lemma DataStore_init_append:
  assumes "distinct (map fst kwargs)"
    and "set (map fst kwargs) \<inter> set special_attributes = {}"
    and "set (map fst kwargs)
           \<inter> {''param_name'', ''param_vals'', ''system_params'', ''data_names''} = {}"
  shows "DataStore_init pn pv sp kwargs =
     Inr ([(''param_name'', pn), (''param_vals'', pv), (''system_params'', sp),
           (''data_names'', PKeys (map fst kwargs))] @ kwargs)"
proof -
  have "fold (\<lambda>(k, v) acc. AList.update k v acc) kwargs
          [(''param_name'', pn), (''param_vals'', pv), (''system_params'', sp),
           (''data_names'', PKeys (map fst kwargs))]
      = [(''param_name'', pn), (''param_vals'', pv), (''system_params'', sp),
         (''data_names'', PKeys (map fst kwargs))] @ kwargs"
    using assms(1,3) by (intro fold_update_fresh) auto
  then show ?thesis by (simp add: DataStore_init_plain [OF assms(2)])
qed

lemma DataStore_new_plain:
  assumes "set (map fst kwargs) \<inter> set DataStore_params = {}"
    and "set (map fst kwargs) \<inter> set special_attributes = {}"
  shows "DataStore_new pn pv sp kwargs =
     Inr (fold (\<lambda>(key, v) acc. AList.update key v acc) kwargs
            [(''param_name'', pn), (''param_vals'', pv), (''system_params'', sp),
             (''data_names'', PKeys (map fst kwargs))])"
  using assms(1) by (simp add: DataStore_new_def DataStore_init_plain [OF assms(2)])

lemma bind_kwargs_keeps:
  "bind_kwargs kw self = Inr store \<Longrightarrow> k \<notin> set (map fst kw) \<Longrightarrow>
   ''__dict__'' \<notin> set (map fst kw) \<Longrightarrow> getattr store k = getattr self k"
proof (induction kw arbitrary: self)
  case Nil
  then show ?case by simp
next
  case (Cons p kw)
  obtain key v where p: "p = (key, v)" by (cases p)
  from Cons.prems obtain self' where step: "setattr self key v = Inr self'"
    and rest: "bind_kwargs kw self' = Inr store"
    by (auto simp: p split: sum.splits)
  from Cons.prems have "key \<noteq> k" "key \<noteq> ''__dict__''" by (auto simp: p)
  with step have "getattr self' k = getattr self k" by (rule getattr_setattr_other)
  moreover from rest Cons.prems have "getattr store k = getattr self' k"
    by (intro Cons.IH) auto
  ultimately show ?case by simp
qed

lemma getattr_bind_attributes_other:
  "k \<notin> set name_list \<Longrightarrow> ''__dict__'' \<notin> set name_list \<Longrightarrow>
   getattr (fst (bind_attributes data_list index name_list self)) k = getattr self k"
proof (induction data_list index name_list self rule: bind_attributes.induct)
  case (1 data_list index self)
  then show ?case by simp
next
  case (2 data_list index attribute name_list self)
  show ?case
  proof (cases "index < length data_list")
    case False
    then show ?thesis by simp
  next
    case inside: True
    show ?thesis
    proof (cases "setattr self attribute (data_list ! index)")
      case (Inl e)
      with inside show ?thesis by simp
    next
      case (Inr self')
      from "2.prems" have "attribute \<noteq> k" "attribute \<noteq> ''__dict__''" by auto
      with Inr have "getattr self' k = getattr self k" by (rule getattr_setattr_other)
      moreover have "getattr (fst (bind_attributes data_list (Suc index) name_list self')) k
          = getattr self' k"
        using inside Inr "2.prems" by (intro "2.IH") auto
      ultimately show ?thesis using inside Inr by simp
    qed
  qed
qed

lemma bind_attributes_plain:
  "set name_list \<inter> set special_attributes = {} \<Longrightarrow>
   bind_attributes data_list index name_list self =
     (fold (\<lambda>(attribute, v) acc. AList.update attribute v acc)
        (zip name_list (drop index data_list)) self,
      if length name_list \<le> length data_list - index then None else Some IndexError)"
proof (induction data_list index name_list self rule: bind_attributes.induct)
  case (1 data_list index self)
  then show ?case by simp
next
  case (2 data_list index attribute name_list self)
  show ?case
  proof (cases "index < length data_list")
    case True
    then have dropped: "drop index data_list = data_list ! index # drop (Suc index) data_list"
      by (simp add: Cons_nth_drop_Suc)
    from "2.prems" have "attribute \<notin> set special_attributes" by auto
    then have step: "setattr self attribute (data_list ! index)
        = Inr (AList.update attribute (data_list ! index) self)"
      by (rule setattr_plain)
    from "2.prems" have "set name_list \<inter> set special_attributes = {}" by auto
    with True step have "bind_attributes data_list (Suc index) name_list
          (AList.update attribute (data_list ! index) self)
        = (fold (\<lambda>(attribute, v) acc. AList.update attribute v acc)
             (zip name_list (drop (Suc index) data_list))
             (AList.update attribute (data_list ! index) self),
           if length name_list \<le> length data_list - Suc index then None else Some IndexError)"
      by (intro "2.IH")
    with True step dropped show ?thesis by auto
  next
    case False
    then show ?thesis by simp
  qed
qed

lemma select_data_filter:
  assumes "getattr self ''data_names'' = Inr data_names"
    and "data_names \<noteq> PNone" and "\<forall>n. data_names \<noteq> PNum n"
  shows "select_data self items =
     Inr (filter (\<lambda>(key, v). py_contains data_names key = Inr True) items)"
  using assms
  by (induction items) (auto simp: py_contains_def split: pyval.splits)

lemma select_data_not_container:
  assumes "getattr self ''data_names'' = Inr data_names"
    and "data_names = PNone \<or> (\<exists>n. data_names = PNum n)"
    and "items \<noteq> []"
  shows "select_data self items = Inl TypeError"
  using assms by (cases items) (auto simp: py_contains_def)

lemma fold_add_dataset:
  "fold (\<lambda>(data_name, data) w2. add_dataset w2 data_name (cv data)) items w =
     w\<lparr>datasets := datasets w @ map (\<lambda>(data_name, data). (data_name, cv data)) items\<rparr>"
  by (induction items arbitrary: w) (auto simp: add_dataset_def)

lemma collect_data_zip:
  "distinct (map fst kw) \<Longrightarrow> set (map fst kw) \<inter> set (map fst acc) = {} \<Longrightarrow>
   collect_data (pre @ map snd kw) (length pre) (map fst kw) acc = Inr (acc @ kw)"
proof (induction kw arbitrary: pre acc)
  case Nil
  then show ?case by simp
next
  case (Cons p kw)
  obtain k v where p: "p = (k, v)" by (cases p)
  from Cons.prems have fresh: "k \<notin> set (map fst acc)" by (auto simp: p)
  have "collect_data ((pre @ [v]) @ map snd kw) (length (pre @ [v])) (map fst kw)
          (acc @ [(k, v)]) = Inr ((acc @ [(k, v)]) @ kw)"
    using Cons.prems by (intro Cons.IH) (auto simp: p)
  then show ?case by (simp add: p update_fresh [OF fresh])
qed

lemma collect_data_keys:
  "collect_data data_list i name_list acc = Inr data_dict \<Longrightarrow>
   set (map fst data_dict) = set (map fst acc) \<union> set name_list"
proof (induction data_list i name_list acc rule: collect_data.induct)
  case (1 data_list i acc)
  then show ?case by simp
next
  case (2 data_list i name name_list acc)
  from "2.prems" have inside: "i < length data_list" by (simp split: if_splits)
  with "2.prems" have "set (map fst data_dict) =
      set (map fst (AList.update name (data_list ! i) acc)) \<union> set name_list"
    by (intro "2.IH") simp_all
  then show ?case by (simp add: dom_update)
qed

lemma collect_data_distinct:
  "collect_data data_list i name_list acc = Inr data_dict \<Longrightarrow> distinct (map fst acc) \<Longrightarrow>
   distinct (map fst data_dict)"
proof (induction data_list i name_list acc rule: collect_data.induct)
  case (1 data_list i acc)
  then show ?case by simp
next
  case (2 data_list i name name_list acc)
  from "2.prems" have inside: "i < length data_list" by (simp split: if_splits)
  with "2.prems" show ?case by (intro "2.IH") (simp_all add: distinct_update)
qed

lemma collect_data_other:
  "collect_data data_list i name_list acc = Inr data_dict \<Longrightarrow> k \<notin> set name_list \<Longrightarrow>
   map_of data_dict k = map_of acc k"
proof (induction data_list i name_list acc rule: collect_data.induct)
  case (1 data_list i acc)
  then show ?case by simp
next
  case (2 data_list i name name_list acc)
  from "2.prems" have inside: "i < length data_list" by (simp split: if_splits)
  with "2.prems" have "map_of data_dict k = map_of (AList.update name (data_list ! i) acc) k"
    by (intro "2.IH") simp_all
  with "2.prems" show ?case by (simp add: update_conv')
qed

lemma collect_data_nth:
  "collect_data data_list i name_list acc = Inr data_dict \<Longrightarrow> distinct name_list \<Longrightarrow>
   j < length name_list \<Longrightarrow> map_of data_dict (name_list ! j) = Some (data_list ! (i + j))"
proof (induction data_list i name_list acc arbitrary: j rule: collect_data.induct)
  case (1 data_list i acc)
  then show ?case by simp
next
  case (2 data_list i name name_list acc)
  from "2.prems" have inside: "i < length data_list" by (simp split: if_splits)
  with "2.prems" have rest:
    "collect_data data_list (Suc i) name_list (AList.update name (data_list ! i) acc)
       = Inr data_dict"
    by simp
  show ?case
  proof (cases j)
    case 0
    from "2.prems" have "name \<notin> set name_list" by simp
    with rest have "map_of data_dict name = map_of (AList.update name (data_list ! i) acc) name"
      by (rule collect_data_other)
    then show ?thesis by (simp add: 0 update_conv')
  next
    case (Suc j')
    with "2.prems" have "map_of data_dict (name_list ! j') = Some (data_list ! (Suc i + j'))"
      using inside rest by (intro "2.IH") simp_all
    then show ?thesis by (simp add: Suc)
  qed
qed

lemma bind_kwargs_accepts:
  "bind_kwargs kw self = Inr store \<Longrightarrow>
   ''__class__'' \<notin> set (map fst kw) \<and> ''__weakref__'' \<notin> set (map fst kw)"
proof (induction kw arbitrary: self)
  case Nil
  then show ?case by simp
next
  case (Cons p kw)
  obtain key v where p: "p = (key, v)" by (cases p)
  from Cons.prems obtain self' where step: "setattr self key v = Inr self'"
    and rest: "bind_kwargs kw self' = Inr store"
    by (auto simp: p split: sum.splits)
  from step have "key \<noteq> ''__class__''" "key \<noteq> ''__weakref__''"
    by (auto simp: setattr_def split: if_splits)
  with Cons.IH [OF rest] show ?case by (simp add: p)
qed

lemma DataStore_new_Inr:
  assumes "DataStore_new pn pv sp kwargs = Inr store"
    and "''__dict__'' \<notin> set (map fst kwargs)"
  shows "set (map fst kwargs) \<inter> set DataStore_params = {}"
    and "set (map fst kwargs) \<inter> set special_attributes = {}"
    and "store = fold (\<lambda>(key, v) acc. AList.update key v acc) kwargs
            [(''param_name'', pn), (''param_vals'', pv), (''system_params'', sp),
             (''data_names'', PKeys (map fst kwargs))]"
proof -
  from assms(1) show params: "set (map fst kwargs) \<inter> set DataStore_params = {}"
    by (auto simp: DataStore_new_def split: if_splits)
  with assms(1) have "DataStore_init pn pv sp kwargs = Inr store"
    by (simp add: DataStore_new_def)
  then have "''__class__'' \<notin> set (map fst kwargs) \<and> ''__weakref__'' \<notin> set (map fst kwargs)"
    unfolding DataStore_init_def Let_def by (rule bind_kwargs_accepts)
  with assms(2) show special: "set (map fst kwargs) \<inter> set special_attributes = {}"
    by (auto simp: special_attributes_def)
  from DataStore_new_plain [OF params special, of pn pv sp] assms(1)
  show "store = fold (\<lambda>(key, v) acc. AList.update key v acc) kwargs
            [(''param_name'', pn), (''param_vals'', pv), (''system_params'', sp),
             (''data_names'', PKeys (map fst kwargs))]"
    by simp
qed

section \<open>Claims about the constructors\<close>

text \<open>
  C9, as amended.  A \<open>DataStore\<close> constructed directly with extra named fields,
  none of which is named \<open>data_names\<close> or \<open>__dict__\<close>, has \<open>data_names\<close> bound to
  exactly the names of those fields; \<open>param_name\<close>, \<open>param_vals\<close> and
  \<open>system_params\<close> are not among them; and every one of them is an entry of the
  instance's namespace, holding the value that was passed (the absent sentinel
  included).
\<close>

theorem data_names_derivation:
  assumes built: "DataStore_new param_name param_vals system_params kwargs = Inr store"
    and dict: "distinct (map fst kwargs)"
    and no_clash: "''data_names'' \<notin> set (map fst kwargs)"
    and no_dict: "''__dict__'' \<notin> set (map fst kwargs)"
  shows "getattr store ''data_names'' = Inr (PKeys (map fst kwargs))
     \<and> ''param_name'' \<notin> set (map fst kwargs)
     \<and> ''param_vals'' \<notin> set (map fst kwargs)
     \<and> ''system_params'' \<notin> set (map fst kwargs)
     \<and> (\<forall>(k, v) \<in> set kwargs. map_of store k = Some v)"
proof -
  note facts = DataStore_new_Inr [OF built no_dict]
  have names: "getattr store ''data_names'' = Inr (PKeys (map fst kwargs))"
    using no_clash by (simp add: facts(3) getattr_def map_of_fold_update_other)
  have fixed: "''param_name'' \<notin> set (map fst kwargs)" "''param_vals'' \<notin> set (map fst kwargs)"
    "''system_params'' \<notin> set (map fst kwargs)"
    using facts(1) by (auto simp: DataStore_params_def)
  have "map_of store k = Some v" if "(k, v) \<in> set kwargs" for k v
    unfolding facts(3) using dict that by (rule map_of_fold_update_member)
  with names fixed show ?thesis by auto
qed

theorem data_names_derivation_witness:
  "DataStore_new (PStr ''flux'') (PArr1 [0, 1]) (PDict [])
      [(''a'', PNone), (''b'', PArr1 [1, 2]), (''c'', PNum 3)]
     = Inr [(''param_name'', PStr ''flux''), (''param_vals'', PArr1 [0, 1]),
            (''system_params'', PDict []), (''data_names'', PKeys [''a'', ''b'', ''c'']),
            (''a'', PNone), (''b'', PArr1 [1, 2]), (''c'', PNum 3)]
   \<and> distinct (map fst [(''a'', PNone), (''b'', PArr1 [1, 2]), (''c'', PNum 3)])
   \<and> ''data_names'' \<notin> set (map fst [(''a'', PNone), (''b'', PArr1 [1, 2]), (''c'', PNum 3)])
   \<and> ''__dict__'' \<notin> set (map fst [(''a'', PNone), (''b'', PArr1 [1, 2]), (''c'', PNum 3)])
   \<and> getattr [(''param_name'', PStr ''flux''), (''param_vals'', PArr1 [0, 1]),
            (''system_params'', PDict []), (''data_names'', PKeys [''a'', ''b'', ''c'']),
            (''a'', PNone), (''b'', PArr1 [1, 2]), (''c'', PNum 3)] ''data_names''
       = Inr (PKeys [''a'', ''b'', ''c''])
   \<and> map_of [(''param_name'', PStr ''flux''), (''param_vals'', PArr1 [0, 1]),
            (''system_params'', PDict []), (''data_names'', PKeys [''a'', ''b'', ''c'']),
            (''a'', PNone), (''b'', PArr1 [1, 2]), (''c'', PNum 3)] ''a''
       = Some PNone"
proof -
  let ?kw = "[(''a'', PNone), (''b'', PArr1 [1, 2]), (''c'', PNum 3)]"
  let ?store = "[(''param_name'', PStr ''flux''), (''param_vals'', PArr1 [0, 1]),
            (''system_params'', PDict []), (''data_names'', PKeys [''a'', ''b'', ''c'']),
            (''a'', PNone), (''b'', PArr1 [1, 2]), (''c'', PNum 3)]"
  have built: "DataStore_new (PStr ''flux'') (PArr1 [0, 1]) (PDict []) ?kw = Inr ?store"
    by (simp add: DataStore_new_def DataStore_params_def DataStore_init_def assign_def
        setattr_def)
  have dict: "distinct (map fst ?kw)" by simp
  have no_clash: "''data_names'' \<notin> set (map fst ?kw)" by simp
  have no_dict: "''__dict__'' \<notin> set (map fst ?kw)" by simp
  from data_names_derivation [OF built dict no_clash no_dict] built show ?thesis by simp
qed

text \<open>
  C9 as stated fails for an extra field named \<open>data_names\<close>: \<open>setattr\<close> rebinds
  the attribute that \<open>__init__\<close> has just set to \<open>kwargs.keys()\<close>, so
  \<open>data_names\<close> holds the field's value and not the set of field names.  It
  fails as well for a field named \<open>__dict__\<close> that holds a dictionary: the
  dictionary becomes the namespace and the instance has no \<open>data_names\<close>.
\<close>

theorem data_names_derivation_counterexample:
  "DataStore_new (PStr ''flux'') (PArr1 [0, 1]) (PDict []) [(''data_names'', PArr1 [7, 8])]
     = Inr [(''param_name'', PStr ''flux''), (''param_vals'', PArr1 [0, 1]),
            (''system_params'', PDict []), (''data_names'', PArr1 [7, 8])]
   \<and> getattr [(''param_name'', PStr ''flux''), (''param_vals'', PArr1 [0, 1]),
            (''system_params'', PDict []), (''data_names'', PArr1 [7, 8])] ''data_names''
       = Inr (PArr1 [7, 8])
   \<and> PArr1 [7, 8] \<noteq> PKeys (map fst [(''data_names'', PArr1 [7, 8])])
   \<and> DataStore_new (PStr ''flux'') (PArr1 [0, 1]) (PDict [])
        [(''__dict__'', PDict [(''x'', PNum 1)])]
     = Inr [(''x'', PNum 1)]
   \<and> getattr [(''x'', PNum 1)] ''data_names'' = Inl (AttributeError ''data_names'')"
  by (simp add: DataStore_new_def DataStore_params_def DataStore_init_def assign_def
      setattr_def getattr_def)

text \<open>
  C10, as amended.  For an instance that holds no entry named \<open>param_count\<close> and
  whose \<open>param_vals\<close> is sized, \<open>param_count()\<close> returns its length: the number
  of entries of a one-dimensional array, of rows of a two-dimensional one, of
  characters of a string, of keys of a dictionary or of a key view.  A sweep of
  length zero is counted like any other and raises nothing.
\<close>

theorem param_count_len:
  assumes "\<not> shadowed self ''param_count''"
    and "getattr self ''param_vals'' = Inr param_vals"
  shows "(param_vals = PArr1 xs \<longrightarrow> param_count self = Inr (length xs))
     \<and> (param_vals = PArr2 ncols rows \<longrightarrow> param_count self = Inr (length rows))
     \<and> (param_vals = PStr s \<longrightarrow> param_count self = Inr (length s))
     \<and> (param_vals = PDict d \<longrightarrow> param_count self = Inr (length d))
     \<and> (param_vals = PKeys ks \<longrightarrow> param_count self = Inr (length ks))"
  using assms by (simp add: param_count_def py_len_def)

theorem param_count_len_witness:
  "\<not> shadowed [(''param_name'', PStr ''flux''), (''param_vals'', PArr1 []),
        (''system_params'', PDict []), (''data_names'', PKeys [])] ''param_count''
   \<and> DataStore_new (PStr ''flux'') (PArr1 []) (PDict []) []
     = Inr [(''param_name'', PStr ''flux''), (''param_vals'', PArr1 []),
            (''system_params'', PDict []), (''data_names'', PKeys [])]
   \<and> param_count [(''param_name'', PStr ''flux''), (''param_vals'', PArr1 []),
        (''system_params'', PDict []), (''data_names'', PKeys [])] = Inr 0
   \<and> param_count [(''param_name'', PStr ''flux''), (''param_vals'', PArr1 [5]),
        (''system_params'', PDict []), (''data_names'', PKeys [])] = Inr 1
   \<and> param_count [(''param_name'', PStr ''flux''), (''param_vals'', PArr1 [5, 6, 7]),
        (''system_params'', PDict []), (''data_names'', PKeys [''a'']), (''a'', PNone)] = Inr 3
   \<and> param_count [(''param_name'', PStr ''flux''),
        (''param_vals'', PArr2 2 [[1, 2], [3, 4], [5, 6]]),
        (''system_params'', PDict []), (''data_names'', PKeys [])] = Inr 3"
proof -
  let ?s0 = "[(''param_name'', PStr ''flux''), (''param_vals'', PArr1 []),
        (''system_params'', PDict []), (''data_names'', PKeys [])]"
  let ?s1 = "[(''param_name'', PStr ''flux''), (''param_vals'', PArr1 [5]),
        (''system_params'', PDict []), (''data_names'', PKeys [])]"
  let ?s3 = "[(''param_name'', PStr ''flux''), (''param_vals'', PArr1 [5, 6, 7]),
        (''system_params'', PDict []), (''data_names'', PKeys [''a'']), (''a'', PNone)]"
  let ?s2d = "[(''param_name'', PStr ''flux''),
        (''param_vals'', PArr2 2 [[1, 2], [3, 4], [5, 6]]),
        (''system_params'', PDict []), (''data_names'', PKeys [])]"
  have built: "DataStore_new (PStr ''flux'') (PArr1 []) (PDict []) [] = Inr ?s0"
    by (simp add: DataStore_new_def DataStore_init_def assign_def)
  have n0: "\<not> shadowed ?s0 ''param_count''" and n1: "\<not> shadowed ?s1 ''param_count''"
    and n3: "\<not> shadowed ?s3 ''param_count''" and n2d: "\<not> shadowed ?s2d ''param_count''"
    by (simp_all add: shadowed_def)
  have a0: "getattr ?s0 ''param_vals'' = Inr (PArr1 [])"
    and a1: "getattr ?s1 ''param_vals'' = Inr (PArr1 [5])"
    and a3: "getattr ?s3 ''param_vals'' = Inr (PArr1 [5, 6, 7])"
    and a2d: "getattr ?s2d ''param_vals'' = Inr (PArr2 2 [[1, 2], [3, 4], [5, 6]])"
    by (simp_all add: getattr_def)
  from param_count_len [OF n0 a0, of "[]"] have c0: "param_count ?s0 = Inr 0" by simp
  from param_count_len [OF n1 a1, of "[5]"] have c1: "param_count ?s1 = Inr 1" by simp
  from param_count_len [OF n3 a3, of "[5, 6, 7]"] have c3: "param_count ?s3 = Inr 3" by simp
  from param_count_len [OF n2d a2d, of _ 2 "[[1, 2], [3, 4], [5, 6]]"]
  have c2d: "param_count ?s2d = Inr 3" by simp
  from n0 built c0 c1 c3 c2d show ?thesis by simp
qed

text \<open>
  C10 as stated fails for a store with a data field named \<open>param_count\<close>: the
  field shadows the method, and \<open>param_count()\<close> calls a number.
\<close>

theorem param_count_len_counterexample:
  "DataStore_new (PStr ''flux'') (PArr1 [0, 1]) (PDict []) [(''param_count'', PNum 3)]
     = Inr [(''param_name'', PStr ''flux''), (''param_vals'', PArr1 [0, 1]),
            (''system_params'', PDict []), (''data_names'', PKeys [''param_count'']),
            (''param_count'', PNum 3)]
   \<and> getattr [(''param_name'', PStr ''flux''), (''param_vals'', PArr1 [0, 1]),
            (''system_params'', PDict []), (''data_names'', PKeys [''param_count'']),
            (''param_count'', PNum 3)] ''param_vals'' = Inr (PArr1 [0, 1])
   \<and> param_count [(''param_name'', PStr ''flux''), (''param_vals'', PArr1 [0, 1]),
            (''system_params'', PDict []), (''data_names'', PKeys [''param_count'']),
            (''param_count'', PNum 3)] = Inl TypeError"
  by (simp add: DataStore_new_def DataStore_params_def DataStore_init_def assign_def
      setattr_def getattr_def param_count_def shadowed_def)

text \<open>
  C3.  A \<open>SpectrumData\<close> built by its own constructor has an empty
  \<open>data_names\<close>, its three tables being plain attributes; serializing it hands
  the metadata record to the writer and adds no dataset, whatever the tables
  hold.
\<close>

theorem SpectrumData_no_datasets:
  "SpectrumData_init pn pv et sp st mt =
     Inr [(''param_name'', pn), (''param_vals'', pv), (''system_params'', sp),
          (''data_names'', PKeys []), (''energy_table'', et), (''state_table'', st),
          (''matrixelem_table'', mt)]
   \<and> getattr [(''param_name'', pn), (''param_vals'', pv), (''system_params'', sp),
          (''data_names'', PKeys []), (''energy_table'', et), (''state_table'', st),
          (''matrixelem_table'', mt)] ''data_names'' = Inr (PKeys [])
   \<and> getattr [(''param_name'', pn), (''param_vals'', pv), (''system_params'', sp),
          (''data_names'', PKeys []), (''energy_table'', et), (''state_table'', st),
          (''matrixelem_table'', mt)] ''energy_table'' = Inr et
   \<and> getattr [(''param_name'', pn), (''param_vals'', pv), (''system_params'', sp),
          (''data_names'', PKeys []), (''energy_table'', et), (''state_table'', st),
          (''matrixelem_table'', mt)] ''state_table'' = Inr st
   \<and> getattr [(''param_name'', pn), (''param_vals'', pv), (''system_params'', sp),
          (''data_names'', PKeys []), (''energy_table'', et), (''state_table'', st),
          (''matrixelem_table'', mt)] ''matrixelem_table'' = Inr mt
   \<and> serialize process_metadata convert_to_ndarray
        [(''param_name'', pn), (''param_vals'', pv), (''system_params'', sp),
          (''data_names'', PKeys []), (''energy_table'', et), (''state_table'', st),
          (''matrixelem_table'', mt)] w =
       ([(''param_name'', pn), (''param_vals'', pv), (''system_params'', sp),
          (''data_names'', PKeys []), (''energy_table'', et), (''state_table'', st),
          (''matrixelem_table'', mt)],
        w\<lparr>meta := Some (dict_update [(''param_name'', pn), (''param_vals'', pv)]
                          (process_metadata sp))\<rparr>, None)"
  by (simp add: SpectrumData_init_def DataStore_init_def assign_def getattr_def serialize_def
      shadowed_def get_metadata_dict_def get_data_dict_def py_contains_def create_meta_def
      value_not_none_def)

section \<open>Claims about reconstruction from file data\<close>

text \<open>
  C5.  When the metadata dict lacks \<open>param_name\<close> or \<open>param_vals\<close>,
  \<open>_init_from_data\<close> raises \<open>KeyError\<close> for the first of the two that is missing:
  no default is substituted and no instance is returned, for either class.
\<close>

theorem missing_key_failure:
  assumes "''param_name'' \<notin> set (map fst metadata_dict)
           \<or> ''param_vals'' \<notin> set (map fst metadata_dict)"
  shows "init_from_data c (metadata_dict, name_list, data_list) =
     Inl (KeyError (if ''param_name'' \<notin> set (map fst metadata_dict)
                    then ''param_name'' else ''param_vals''))"
proof (cases "''param_name'' \<in> set (map fst metadata_dict)")
  case False
  then show ?thesis by (simp add: dict_pop_missing)
next
  case True
  then obtain v where v: "map_of metadata_dict ''param_name'' = Some v"
    by (metis map_of_eq_None_iff not_Some_eq set_map)
  from True assms have "''param_vals'' \<notin> set (map fst (AList.delete ''param_name'' metadata_dict))"
    using keys_delete_other [of "''param_vals''" "''param_name''" metadata_dict] by simp
  with True v show ?thesis by (simp add: dict_pop_present dict_pop_missing)
qed

theorem missing_key_failure_witness:
  "''param_vals'' \<notin> set (map fst [(''param_name'', PStr ''flux''), (''EJ'', PNum 3)])
   \<and> ''param_name'' \<notin> set (map fst [(''param_vals'', PArr1 [0])])
   \<and> init_from_data DataStore
        ([(''param_name'', PStr ''flux''), (''EJ'', PNum 3)], [''a''], [PArr1 [1]])
       = Inl (KeyError ''param_vals'')
   \<and> init_from_data SpectrumData
        ([(''param_vals'', PArr1 [0])], [''energy_table''], [PArr2 1 [[1]]])
       = Inl (KeyError ''param_name'')"
proof -
  have a: "''param_name'' \<notin> set (map fst [(''param_name'', PStr ''flux''), (''EJ'', PNum 3)])
      \<or> ''param_vals'' \<notin> set (map fst [(''param_name'', PStr ''flux''), (''EJ'', PNum 3)])"
    by simp
  have b: "''param_name'' \<notin> set (map fst [(''param_vals'', PArr1 [0])])
      \<or> ''param_vals'' \<notin> set (map fst [(''param_vals'', PArr1 [0])])"
    by simp
  from missing_key_failure [OF a, of DataStore "[''a'']" "[PArr1 [1]]"]
    missing_key_failure [OF b, of SpectrumData "[''energy_table'']" "[PArr2 1 [[1]]]"]
  show ?thesis by simp
qed

lemma set_from_data_present:
  assumes "\<not> shadowed self ''set_from_data''"
    and "map_of metadata_dict ''param_name'' = Some pn"
    and "map_of metadata_dict ''param_vals'' = Some pv"
    and "set name_list \<inter> set special_attributes = {}"
  shows "set_from_data self (metadata_dict, name_list, data_list) =
     (fold (\<lambda>(attribute, v) acc. AList.update attribute v acc) (zip name_list data_list)
        (assign (assign (assign self ''param_name'' pn) ''param_vals'' pv) ''system_params''
           (PDict (AList.delete ''param_vals'' (AList.delete ''param_name'' metadata_dict)))),
      if length name_list \<le> length data_list then None else Some IndexError)"
  using assms(1-3) by (simp add: dict_pop_def bind_attributes_plain [OF assms(4)])

text \<open>
  C6, as amended.  \<open>set_from_data\<close> leaves the instance entirely unmodified when
  it fails before its first assignment: on an instance where an entry named
  \<open>set_from_data\<close> shadows the method (\<open>TypeError\<close>), and on a metadata dict that
  lacks \<open>param_name\<close> (\<open>KeyError\<close>).  When the dict has \<open>param_name\<close> and lacks
  \<open>param_vals\<close>, the call fails after \<open>param_name\<close> has been rebound, and nothing
  else has changed.  When both keys are there, \<open>data_list\<close> is shorter than
  \<open>name_list\<close> and no name is \<open>__dict__\<close>, \<open>__class__\<close> or \<open>__weakref__\<close>, the call
  fails with \<open>IndexError\<close> after \<open>param_name\<close>, \<open>param_vals\<close>, \<open>system_params\<close>
  and one attribute for every entry of \<open>data_list\<close> have been rebound.
\<close>

theorem populate_failure:
  "(shadowed self ''set_from_data'' \<longrightarrow>
      set_from_data self (metadata_dict, name_list, data_list) = (self, Some TypeError))
   \<and> (\<not> shadowed self ''set_from_data''
        \<and> ''param_name'' \<notin> set (map fst metadata_dict) \<longrightarrow>
      set_from_data self (metadata_dict, name_list, data_list) =
        (self, Some (KeyError ''param_name'')))
   \<and> (\<not> shadowed self ''set_from_data''
        \<and> map_of metadata_dict ''param_name'' = Some v
        \<and> ''param_vals'' \<notin> set (map fst metadata_dict) \<longrightarrow>
      set_from_data self (metadata_dict, name_list, data_list) =
        (assign self ''param_name'' v, Some (KeyError ''param_vals'')))
   \<and> (\<not> shadowed self ''set_from_data''
        \<and> map_of metadata_dict ''param_name'' = Some v
        \<and> map_of metadata_dict ''param_vals'' = Some u
        \<and> length data_list < length name_list
        \<and> set name_list \<inter> set special_attributes = {} \<longrightarrow>
      set_from_data self (metadata_dict, name_list, data_list) =
        (fold (\<lambda>(attribute, d) acc. AList.update attribute d acc) (zip name_list data_list)
           (assign (assign (assign self ''param_name'' v) ''param_vals'' u) ''system_params''
              (PDict (AList.delete ''param_vals'' (AList.delete ''param_name'' metadata_dict)))),
         Some IndexError))"
proof (intro conjI impI)
  assume "shadowed self ''set_from_data''"
  then show "set_from_data self (metadata_dict, name_list, data_list) = (self, Some TypeError)"
    by simp
next
  assume "\<not> shadowed self ''set_from_data''
    \<and> ''param_name'' \<notin> set (map fst metadata_dict)"
  then show "set_from_data self (metadata_dict, name_list, data_list) =
      (self, Some (KeyError ''param_name''))"
    by (simp add: dict_pop_missing)
next
  assume a: "\<not> shadowed self ''set_from_data''
    \<and> map_of metadata_dict ''param_name'' = Some v
    \<and> ''param_vals'' \<notin> set (map fst metadata_dict)"
  then have "''param_vals'' \<notin> set (map fst (AList.delete ''param_name'' metadata_dict))"
    using keys_delete_other [of "''param_vals''" "''param_name''" metadata_dict] by simp
  with a show "set_from_data self (metadata_dict, name_list, data_list) =
      (assign self ''param_name'' v, Some (KeyError ''param_vals''))"
    by (simp add: dict_pop_present dict_pop_missing)
next
  assume a: "\<not> shadowed self ''set_from_data''
    \<and> map_of metadata_dict ''param_name'' = Some v
    \<and> map_of metadata_dict ''param_vals'' = Some u
    \<and> length data_list < length name_list
    \<and> set name_list \<inter> set special_attributes = {}"
  then show "set_from_data self (metadata_dict, name_list, data_list) =
      (fold (\<lambda>(attribute, d) acc. AList.update attribute d acc) (zip name_list data_list)
         (assign (assign (assign self ''param_name'' v) ''param_vals'' u) ''system_params''
            (PDict (AList.delete ''param_vals'' (AList.delete ''param_name'' metadata_dict)))),
       Some IndexError)"
    by (simp add: set_from_data_present del: set_from_data.simps)
qed

theorem populate_failure_witness:
  "shadowed [(''set_from_data'', PNum 1)] ''set_from_data''
   \<and> set_from_data [(''set_from_data'', PNum 1)]
        ([(''param_name'', PStr ''ng''), (''param_vals'', PArr1 [5])], [''a''], [PNum 1])
       = ([(''set_from_data'', PNum 1)], Some TypeError)
   \<and> ''param_name'' \<notin> set (map fst [(''param_vals'', PArr1 [0])])
   \<and> set_from_data [(''param_name'', PStr ''flux''), (''param_vals'', PArr1 [0, 1]),
            (''system_params'', PDict []), (''data_names'', PKeys [])]
        ([(''param_vals'', PArr1 [0])], [''a''], [PNum 1])
       = ([(''param_name'', PStr ''flux''), (''param_vals'', PArr1 [0, 1]),
            (''system_params'', PDict []), (''data_names'', PKeys [])],
          Some (KeyError ''param_name''))
   \<and> ''param_vals'' \<notin> set (map fst [(''param_name'', PStr ''ng'')])
   \<and> set_from_data [(''param_name'', PStr ''flux''), (''param_vals'', PArr1 [0, 1]),
            (''system_params'', PDict []), (''data_names'', PKeys [])]
        ([(''param_name'', PStr ''ng'')], [''a''], [PNum 1])
       = ([(''param_name'', PStr ''ng''), (''param_vals'', PArr1 [0, 1]),
            (''system_params'', PDict []), (''data_names'', PKeys [])],
          Some (KeyError ''param_vals''))
   \<and> length [PNum 1] < length [''a'', ''b'']
   \<and> set_from_data [(''param_name'', PStr ''flux''), (''param_vals'', PArr1 [0, 1]),
            (''system_params'', PDict []), (''data_names'', PKeys [])]
        ([(''param_name'', PStr ''ng''), (''param_vals'', PArr1 [5])], [''a'', ''b''], [PNum 1])
       = ([(''param_name'', PStr ''ng''), (''param_vals'', PArr1 [5]),
           (''system_params'', PDict []), (''data_names'', PKeys []), (''a'', PNum 1)],
          Some IndexError)"
proof -
  let ?self = "[(''param_name'', PStr ''flux''), (''param_vals'', PArr1 [0, 1]),
            (''system_params'', PDict []), (''data_names'', PKeys [])]"
  let ?md = "[(''param_name'', PStr ''ng''), (''param_vals'', PArr1 [5])]"
  have s: "shadowed [(''set_from_data'', PNum 1)] ''set_from_data''"
    by (simp add: shadowed_def)
  have n: "\<not> shadowed ?self ''set_from_data''" by (simp add: shadowed_def)
  have a: "''param_name'' \<notin> set (map fst [(''param_vals'', PArr1 [0])])" by simp
  have b: "map_of [(''param_name'', PStr ''ng'')] ''param_name'' = Some (PStr ''ng'')
      \<and> ''param_vals'' \<notin> set (map fst [(''param_name'', PStr ''ng'')])" by simp
  have c: "map_of ?md ''param_name'' = Some (PStr ''ng'')
      \<and> map_of ?md ''param_vals'' = Some (PArr1 [5])
      \<and> length [PNum 1] < length [''a'', ''b'']
      \<and> set [''a'', ''b''] \<inter> set special_attributes = {}"
    by (simp add: special_attributes_def)
  from populate_failure [of "[(''set_from_data'', PNum 1)]" ?md "[''a'']" "[PNum 1]"] s
  have zeroth: "set_from_data [(''set_from_data'', PNum 1)] (?md, [''a''], [PNum 1])
      = ([(''set_from_data'', PNum 1)], Some TypeError)" by blast
  from populate_failure [of ?self "[(''param_vals'', PArr1 [0])]" "[''a'']" "[PNum 1]"] n a
  have first: "set_from_data ?self ([(''param_vals'', PArr1 [0])], [''a''], [PNum 1])
      = (?self, Some (KeyError ''param_name''))" by blast
  from populate_failure [of ?self "[(''param_name'', PStr ''ng'')]" "[''a'']" "[PNum 1]"
      "PStr ''ng''"] n b
  have "set_from_data ?self ([(''param_name'', PStr ''ng'')], [''a''], [PNum 1])
      = (assign ?self ''param_name'' (PStr ''ng''), Some (KeyError ''param_vals''))" by blast
  then have second: "set_from_data ?self ([(''param_name'', PStr ''ng'')], [''a''], [PNum 1])
      = ([(''param_name'', PStr ''ng''), (''param_vals'', PArr1 [0, 1]),
            (''system_params'', PDict []), (''data_names'', PKeys [])],
          Some (KeyError ''param_vals''))"
    by (simp add: assign_def del: set_from_data.simps)
  from populate_failure [of ?self ?md "[''a'', ''b'']" "[PNum 1]" "PStr ''ng''" "PArr1 [5]"] n c
  have "set_from_data ?self (?md, [''a'', ''b''], [PNum 1])
      = (fold (\<lambda>(attribute, d) acc. AList.update attribute d acc) (zip [''a'', ''b''] [PNum 1])
           (assign (assign (assign ?self ''param_name'' (PStr ''ng'')) ''param_vals''
              (PArr1 [5])) ''system_params''
              (PDict (AList.delete ''param_vals'' (AList.delete ''param_name'' ?md)))),
         Some IndexError)" by blast
  then have third: "set_from_data ?self (?md, [''a'', ''b''], [PNum 1])
      = ([(''param_name'', PStr ''ng''), (''param_vals'', PArr1 [5]),
          (''system_params'', PDict []), (''data_names'', PKeys []), (''a'', PNum 1)],
         Some IndexError)"
    by (simp add: assign_def del: set_from_data.simps)
  from zeroth first second third s a b c show ?thesis by blast
qed

text \<open>
  C6 as stated fails: a metadata dict with \<open>param_name\<close> and without
  \<open>param_vals\<close> makes the call raise \<open>KeyError\<close> with \<open>param_name\<close> already
  rebound.
\<close>

theorem populate_failure_counterexample:
  "DataStore_new (PStr ''flux'') (PArr1 [0, 1]) (PDict []) []
     = Inr [(''param_name'', PStr ''flux''), (''param_vals'', PArr1 [0, 1]),
            (''system_params'', PDict []), (''data_names'', PKeys [])]
   \<and> set_from_data [(''param_name'', PStr ''flux''), (''param_vals'', PArr1 [0, 1]),
            (''system_params'', PDict []), (''data_names'', PKeys [])]
          ([(''param_name'', PStr ''ng'')], [], [])
     = ([(''param_name'', PStr ''ng''), (''param_vals'', PArr1 [0, 1]),
            (''system_params'', PDict []), (''data_names'', PKeys [])],
        Some (KeyError ''param_vals''))
   \<and> [(''param_name'', PStr ''ng''), (''param_vals'', PArr1 [0, 1]),
            (''system_params'', PDict []), (''data_names'', PKeys [])]
       \<noteq> [(''param_name'', PStr ''flux''), (''param_vals'', PArr1 [0, 1]),
            (''system_params'', PDict []), (''data_names'', PKeys [])]"
  by (simp add: DataStore_new_def DataStore_init_def assign_def shadowed_def dict_pop_def)

text \<open>
  C7, as amended.  On an instance where \<open>set_from_data\<close> is not shadowed, with a
  metadata dict that has \<open>param_name\<close> and \<open>param_vals\<close>, a \<open>data_list\<close> at least
  as long as \<open>name_list\<close> and no name \<open>__dict__\<close>, \<open>__class__\<close> or \<open>__weakref__\<close>,
  the call succeeds and rebinds \<open>param_name\<close>, \<open>param_vals\<close>, \<open>system_params\<close>
  (to the rest of the dict) and then, in order, one attribute per entry of
  \<open>name_list\<close>; an entry whose name does not occur again later in the list holds
  the data at its position.  Whether the call succeeds or fails, \<open>data_names\<close>
  is after it what it was before, provided neither \<open>data_names\<close> nor \<open>__dict__\<close>
  is one of the names in \<open>name_list\<close>.
\<close>

theorem populate_keeps_data_names:
  "(''data_names'' \<notin> set name_list \<and> ''__dict__'' \<notin> set name_list \<longrightarrow>
      getattr (fst (set_from_data self (metadata_dict, name_list, data_list))) ''data_names''
        = getattr self ''data_names'')
   \<and> (\<not> shadowed self ''set_from_data''
        \<and> map_of metadata_dict ''param_name'' = Some pn
        \<and> map_of metadata_dict ''param_vals'' = Some pv
        \<and> length name_list \<le> length data_list
        \<and> set name_list \<inter> set special_attributes = {} \<longrightarrow>
      set_from_data self (metadata_dict, name_list, data_list) =
        (fold (\<lambda>(attribute, d) acc. AList.update attribute d acc) (zip name_list data_list)
           (assign (assign (assign self ''param_name'' pn) ''param_vals'' pv) ''system_params''
              (PDict (AList.delete ''param_vals'' (AList.delete ''param_name'' metadata_dict)))),
         None)
      \<and> (\<forall>i<length name_list. name_list ! i \<notin> set (drop (Suc i) name_list) \<longrightarrow>
            map_of (fst (set_from_data self (metadata_dict, name_list, data_list)))
              (name_list ! i) = Some (data_list ! i)))"
proof (intro conjI impI)
  assume "''data_names'' \<notin> set name_list \<and> ''__dict__'' \<notin> set name_list"
  then show "getattr (fst (set_from_data self (metadata_dict, name_list, data_list)))
      ''data_names'' = getattr self ''data_names''"
    by (simp add: dict_pop_def getattr_bind_attributes_other getattr_assign
        split: option.splits)
next
  assume a: "\<not> shadowed self ''set_from_data''
    \<and> map_of metadata_dict ''param_name'' = Some pn
    \<and> map_of metadata_dict ''param_vals'' = Some pv
    \<and> length name_list \<le> length data_list
    \<and> set name_list \<inter> set special_attributes = {}"
  then have run: "set_from_data self (metadata_dict, name_list, data_list) =
      (fold (\<lambda>(attribute, d) acc. AList.update attribute d acc) (zip name_list data_list)
         (assign (assign (assign self ''param_name'' pn) ''param_vals'' pv) ''system_params''
            (PDict (AList.delete ''param_vals'' (AList.delete ''param_name'' metadata_dict)))),
       None)"
    by (simp add: set_from_data_present del: set_from_data.simps)
  then show "set_from_data self (metadata_dict, name_list, data_list) =
      (fold (\<lambda>(attribute, d) acc. AList.update attribute d acc) (zip name_list data_list)
         (assign (assign (assign self ''param_name'' pn) ''param_vals'' pv) ''system_params''
            (PDict (AList.delete ''param_vals'' (AList.delete ''param_name'' metadata_dict)))),
       None)" .
  from a have len: "length name_list \<le> length data_list" by simp
  show "\<forall>i<length name_list. name_list ! i \<notin> set (drop (Suc i) name_list) \<longrightarrow>
      map_of (fst (set_from_data self (metadata_dict, name_list, data_list)))
        (name_list ! i) = Some (data_list ! i)"
    unfolding run by (simp add: map_of_fold_zip_nth len del: set_from_data.simps)
qed

theorem populate_keeps_data_names_witness:
  "''data_names'' \<notin> set [''x'', ''y''] \<and> ''__dict__'' \<notin> set [''x'', ''y'']
   \<and> \<not> shadowed [(''param_name'', PStr ''flux''), (''param_vals'', PArr1 [0, 1]),
            (''system_params'', PDict []), (''data_names'', PKeys [''x'']),
            (''x'', PArr1 [3, 4])] ''set_from_data''
   \<and> length [''x'', ''y''] \<le> length [PArr1 [9], PNone]
   \<and> set [''x'', ''y''] \<inter> set special_attributes = {}
   \<and> set_from_data [(''param_name'', PStr ''flux''), (''param_vals'', PArr1 [0, 1]),
            (''system_params'', PDict []), (''data_names'', PKeys [''x'']),
            (''x'', PArr1 [3, 4])]
        ([(''param_name'', PStr ''ng''), (''param_vals'', PArr1 [5]), (''EJ'', PNum 3)],
         [''x'', ''y''], [PArr1 [9], PNone])
       = ([(''param_name'', PStr ''ng''), (''param_vals'', PArr1 [5]),
            (''system_params'', PDict [(''EJ'', PNum 3)]), (''data_names'', PKeys [''x'']),
            (''x'', PArr1 [9]), (''y'', PNone)], None)
   \<and> getattr (fst (set_from_data [(''param_name'', PStr ''flux''), (''param_vals'', PArr1 [0, 1]),
            (''system_params'', PDict []), (''data_names'', PKeys [''x'']),
            (''x'', PArr1 [3, 4])]
        ([(''param_name'', PStr ''ng''), (''param_vals'', PArr1 [5]), (''EJ'', PNum 3)],
         [''x'', ''y''], [PArr1 [9], PNone]))) ''data_names'' = Inr (PKeys [''x''])"
proof -
  let ?self = "[(''param_name'', PStr ''flux''), (''param_vals'', PArr1 [0, 1]),
            (''system_params'', PDict []), (''data_names'', PKeys [''x'']),
            (''x'', PArr1 [3, 4])]"
  let ?md = "[(''param_name'', PStr ''ng''), (''param_vals'', PArr1 [5]), (''EJ'', PNum 3)]"
  have a: "''data_names'' \<notin> set [''x'', ''y''] \<and> ''__dict__'' \<notin> set [''x'', ''y'']"
    by simp
  have n: "\<not> shadowed ?self ''set_from_data''" by (simp add: shadowed_def)
  have b: "map_of ?md ''param_name'' = Some (PStr ''ng'')
      \<and> map_of ?md ''param_vals'' = Some (PArr1 [5])
      \<and> length [''x'', ''y''] \<le> length [PArr1 [9], PNone]
      \<and> set [''x'', ''y''] \<inter> set special_attributes = {}"
    by (simp add: special_attributes_def)
  have old: "getattr ?self ''data_names'' = Inr (PKeys [''x''])" by (simp add: getattr_def)
  note claim = populate_keeps_data_names [of "[''x'', ''y'']" ?self ?md "[PArr1 [9], PNone]"
      "PStr ''ng''" "PArr1 [5]"]
  from claim a old have kept: "getattr (fst (set_from_data ?self
      (?md, [''x'', ''y''], [PArr1 [9], PNone]))) ''data_names'' = Inr (PKeys [''x''])"
    by (simp del: set_from_data.simps)
  from claim n b have "set_from_data ?self (?md, [''x'', ''y''], [PArr1 [9], PNone]) =
        (fold (\<lambda>(attribute, d) acc. AList.update attribute d acc)
           (zip [''x'', ''y''] [PArr1 [9], PNone])
           (assign (assign (assign ?self ''param_name'' (PStr ''ng'')) ''param_vals''
              (PArr1 [5])) ''system_params''
              (PDict (AList.delete ''param_vals'' (AList.delete ''param_name'' ?md)))),
         None)"
    by blast
  then have run: "set_from_data ?self (?md, [''x'', ''y''], [PArr1 [9], PNone])
       = ([(''param_name'', PStr ''ng''), (''param_vals'', PArr1 [5]),
            (''system_params'', PDict [(''EJ'', PNum 3)]), (''data_names'', PKeys [''x'']),
            (''x'', PArr1 [9]), (''y'', PNone)], None)"
    by (simp add: assign_def del: set_from_data.simps)
  from a n b kept run show ?thesis by blast
qed

text \<open>
  C7 as stated fails for a \<open>name_list\<close> that contains \<open>data_names\<close>: the loop
  rebinds that attribute like any other.  It fails as well for a \<open>name_list\<close>
  that contains \<open>__dict__\<close> with a dictionary: the dictionary becomes the
  namespace, and \<open>data_names\<close> is gone.
\<close>

theorem populate_keeps_data_names_counterexample:
  "getattr [(''param_name'', PStr ''flux''), (''param_vals'', PArr1 [0, 1]),
          (''system_params'', PDict []), (''data_names'', PKeys [''x'']), (''x'', PArr1 [3, 4])]
      ''data_names'' = Inr (PKeys [''x''])
   \<and> set_from_data
        [(''param_name'', PStr ''flux''), (''param_vals'', PArr1 [0, 1]),
          (''system_params'', PDict []), (''data_names'', PKeys [''x'']), (''x'', PArr1 [3, 4])]
        ([(''param_name'', PStr ''flux''), (''param_vals'', PArr1 [0, 1])],
         [''data_names''], [PArr1 [9]])
       = ([(''param_name'', PStr ''flux''), (''param_vals'', PArr1 [0, 1]),
           (''system_params'', PDict []), (''data_names'', PArr1 [9]),
           (''x'', PArr1 [3, 4])], None)
   \<and> PArr1 [9] \<noteq> PKeys [''x'']
   \<and> set_from_data
        [(''param_name'', PStr ''flux''), (''param_vals'', PArr1 [0, 1]),
          (''system_params'', PDict []), (''data_names'', PKeys [''x'']), (''x'', PArr1 [3, 4])]
        ([(''param_name'', PStr ''flux''), (''param_vals'', PArr1 [0, 1])],
         [''__dict__''], [PDict [(''y'', PNum 1)]])
       = ([(''y'', PNum 1)], None)
   \<and> getattr [(''y'', PNum 1)] ''data_names'' = Inl (AttributeError ''data_names'')"
  by (simp add: setattr_def assign_def getattr_def dict_pop_def shadowed_def)

section \<open>Claims about serialization\<close>

text \<open>
  C8, as amended.  On an instance that has its four fixed attributes and no
  entry named \<open>_serialize\<close>, \<open>_get_metadata_dict\<close> or \<open>_get_data_dict\<close>,
  \<open>_serialize\<close> hands the metadata record to the writer and then writes exactly
  one dataset for every attribute whose name is in \<open>data_names\<close> and whose value
  is not the absent sentinel, in the order of \<open>__dict__\<close>.  An attribute holding
  the absent sentinel is not among the datasets written; the instance is
  after the call what it was before, so its name stays in \<open>data_names\<close>.  (When
  \<open>data_names\<close> holds a value that has no members to test, \<open>None\<close> or a number,
  the membership test raises \<open>TypeError\<close> and no dataset is written.)
\<close>

theorem serialize_selects_data:
  assumes methods: "set (map fst self) \<inter> set serialize_methods = {}"
    and name: "getattr self ''param_name'' = Inr pn"
    and vals: "getattr self ''param_vals'' = Inr pv"
    and params: "getattr self ''system_params'' = Inr sp"
    and names: "getattr self ''data_names'' = Inr data_names"
    and dict: "distinct (map fst self)"
  shows "\<exists>written.
     serialize process_metadata convert_to_ndarray self w =
       (self,
        w\<lparr>meta := Some (dict_update [(''param_name'', pn), (''param_vals'', pv)]
                          (process_metadata sp)),
          datasets := datasets w @ written\<rparr>,
        case data_names of PNone \<Rightarrow> Some TypeError | PNum n \<Rightarrow> Some TypeError | _ \<Rightarrow> None)
     \<and> getattr (fst (serialize process_metadata convert_to_ndarray self w)) ''data_names''
         = Inr data_names
     \<and> written = map (\<lambda>(name, data). (name, convert_to_ndarray data))
         (filter (\<lambda>(name, data). py_contains data_names name = Inr True \<and> data \<noteq> PNone) self)
     \<and> (\<forall>name. map_of self name = Some PNone \<longrightarrow> name \<notin> set (map fst written))"
proof -
  let ?keep = "\<lambda>(name, data). py_contains data_names name = Inr True \<and> data \<noteq> PNone"
  let ?written = "map (\<lambda>(name, data). (name, convert_to_ndarray data)) (filter ?keep self)"
  let ?md = "dict_update [(''param_name'', pn), (''param_vals'', pv)] (process_metadata sp)"
  let ?err = "case data_names of PNone \<Rightarrow> Some TypeError | PNum n \<Rightarrow> Some TypeError
    | _ \<Rightarrow> None"
  from methods have found: "\<not> shadowed self ''_serialize''"
    "\<not> shadowed self ''_get_metadata_dict''" "\<not> shadowed self ''_get_data_dict''"
    by (auto simp: shadowed_def serialize_methods_def)
  have md: "get_metadata_dict process_metadata self = Inr ?md"
    by (simp add: get_metadata_dict_def name vals params)
  have run: "serialize process_metadata convert_to_ndarray self w =
       (self, w\<lparr>meta := Some ?md, datasets := datasets w @ ?written\<rparr>, ?err)"
  proof (cases "data_names = PNone \<or> (\<exists>n. data_names = PNum n)")
    case True
    from names have "self \<noteq> []" by (auto simp: getattr_def)
    with names True have "get_data_dict self = Inl TypeError"
      unfolding get_data_dict_def by (intro select_data_not_container)
    moreover from True have "filter ?keep self = []"
      by (auto simp: py_contains_def filter_empty_conv)
    moreover from True have "?err = Some TypeError" by auto
    ultimately show ?thesis
      by (simp add: serialize_def found md create_meta_def)
  next
    case False
    then have container: "data_names \<noteq> PNone" "\<forall>n. data_names \<noteq> PNum n" by auto
    have selected: "get_data_dict self =
        Inr (filter (\<lambda>(key, v). py_contains data_names key = Inr True) self)"
      unfolding get_data_dict_def by (rule select_data_filter [OF names container])
    have kept: "filter value_not_none
         (filter (\<lambda>(key, v). py_contains data_names key = Inr True) self) = filter ?keep self"
      by (induction self) (auto simp: value_not_none_def)
    have added: "fold (\<lambda>(data_name, data) w2. add_dataset w2 data_name (convert_to_ndarray data))
         (filter value_not_none
            (filter (\<lambda>(key, v). py_contains data_names key = Inr True) self)) w1
       = w1\<lparr>datasets := datasets w1 @ ?written\<rparr>" for w1
      unfolding kept by (rule fold_add_dataset)
    from container have err: "?err = None" by (cases data_names) auto
    show ?thesis
      unfolding serialize_def md selected Let_def err
      by (simp only: found if_False sum.case added) (simp add: create_meta_def)
  qed
  have absent: "name \<notin> set (map fst ?written)" if none: "map_of self name = Some PNone" for name
  proof
    assume "name \<in> set (map fst ?written)"
    then obtain data where "(name, data) \<in> set self" "data \<noteq> PNone" by auto
    with dict have "map_of self name = Some data" by simp
    with none \<open>data \<noteq> PNone\<close> show False by simp
  qed
  from run names have "getattr (fst (serialize process_metadata convert_to_ndarray self w))
      ''data_names'' = Inr data_names"
    by simp
  with run absent show ?thesis by blast
qed

theorem serialize_selects_data_witness:
  "set (map fst [(''param_name'', PStr ''flux''), (''param_vals'', PArr1 [0, 1]),
      (''system_params'', PDict [(''EJ'', PNum 3)]), (''data_names'', PKeys [''a'', ''b'']),
      (''a'', PNone), (''b'', PArr1 [1, 2])]) \<inter> set serialize_methods = {}
   \<and> DataStore_new (PStr ''flux'') (PArr1 [0, 1]) (PDict [(''EJ'', PNum 3)])
        [(''a'', PNone), (''b'', PArr1 [1, 2])]
     = Inr [(''param_name'', PStr ''flux''), (''param_vals'', PArr1 [0, 1]),
      (''system_params'', PDict [(''EJ'', PNum 3)]), (''data_names'', PKeys [''a'', ''b'']),
      (''a'', PNone), (''b'', PArr1 [1, 2])]
   \<and> serialize metadata_as_is array_as_is
        [(''param_name'', PStr ''flux''), (''param_vals'', PArr1 [0, 1]),
         (''system_params'', PDict [(''EJ'', PNum 3)]), (''data_names'', PKeys [''a'', ''b'']),
         (''a'', PNone), (''b'', PArr1 [1, 2])] new_writer
       = ([(''param_name'', PStr ''flux''), (''param_vals'', PArr1 [0, 1]),
           (''system_params'', PDict [(''EJ'', PNum 3)]), (''data_names'', PKeys [''a'', ''b'']),
           (''a'', PNone), (''b'', PArr1 [1, 2])],
          \<lparr>meta = Some [(''param_name'', PStr ''flux''), (''param_vals'', PArr1 [0, 1]),
                        (''EJ'', PNum 3)],
           datasets = [(''b'', PArr1 [1, 2])]\<rparr>, None)"
proof -
  let ?self = "[(''param_name'', PStr ''flux''), (''param_vals'', PArr1 [0, 1]),
      (''system_params'', PDict [(''EJ'', PNum 3)]), (''data_names'', PKeys [''a'', ''b'']),
      (''a'', PNone), (''b'', PArr1 [1, 2])]"
  have built: "DataStore_new (PStr ''flux'') (PArr1 [0, 1]) (PDict [(''EJ'', PNum 3)])
        [(''a'', PNone), (''b'', PArr1 [1, 2])] = Inr ?self"
    by (simp add: DataStore_new_def DataStore_params_def DataStore_init_def assign_def
        setattr_def)
  have methods: "set (map fst ?self) \<inter> set serialize_methods = {}"
    by (simp add: serialize_methods_def)
  have name: "getattr ?self ''param_name'' = Inr (PStr ''flux'')"
    and vals: "getattr ?self ''param_vals'' = Inr (PArr1 [0, 1])"
    and params: "getattr ?self ''system_params'' = Inr (PDict [(''EJ'', PNum 3)])"
    and names: "getattr ?self ''data_names'' = Inr (PKeys [''a'', ''b''])"
    by (simp_all add: getattr_def)
  have dict: "distinct (map fst ?self)" by simp
  from serialize_selects_data [OF methods name vals params names dict,
      of metadata_as_is array_as_is new_writer]
  have "serialize metadata_as_is array_as_is ?self new_writer =
       (?self, new_writer\<lparr>meta := Some (dict_update
            [(''param_name'', PStr ''flux''), (''param_vals'', PArr1 [0, 1])]
            (metadata_as_is (PDict [(''EJ'', PNum 3)]))),
          datasets := datasets new_writer @ map (\<lambda>(name, data). (name, array_as_is data))
            (filter (\<lambda>(name, data). py_contains (PKeys [''a'', ''b'']) name = Inr True
                \<and> data \<noteq> PNone) ?self)\<rparr>, None)"
    by auto
  then have "serialize metadata_as_is array_as_is ?self new_writer
       = (?self, \<lparr>meta = Some [(''param_name'', PStr ''flux''), (''param_vals'', PArr1 [0, 1]),
                        (''EJ'', PNum 3)],
           datasets = [(''b'', PArr1 [1, 2])]\<rparr>, None)"
    by (simp add: new_writer_def dict_update_def metadata_as_is_def array_as_is_def
        py_contains_def)
  with methods built show ?thesis by simp
qed

text \<open>
  C8 as stated fails for a store with a data field named \<open>_get_data_dict\<close>: the
  field is in \<open>data_names\<close> and holds an array, but it shadows the method that
  \<open>_serialize\<close> calls, so the call raises \<open>TypeError\<close> after the metadata record
  and writes no dataset.
\<close>

theorem serialize_selects_data_counterexample:
  "DataStore_new (PStr ''flux'') (PArr1 [0, 1]) (PDict [(''EJ'', PNum 3)])
      [(''_get_data_dict'', PArr1 [1, 2])]
     = Inr [(''param_name'', PStr ''flux''), (''param_vals'', PArr1 [0, 1]),
            (''system_params'', PDict [(''EJ'', PNum 3)]),
            (''data_names'', PKeys [''_get_data_dict'']),
            (''_get_data_dict'', PArr1 [1, 2])]
   \<and> py_contains (PKeys [''_get_data_dict'']) ''_get_data_dict'' = Inr True
   \<and> PArr1 [1, 2] \<noteq> PNone
   \<and> serialize metadata_as_is array_as_is
        [(''param_name'', PStr ''flux''), (''param_vals'', PArr1 [0, 1]),
         (''system_params'', PDict [(''EJ'', PNum 3)]),
         (''data_names'', PKeys [''_get_data_dict'']),
         (''_get_data_dict'', PArr1 [1, 2])] new_writer
     = ([(''param_name'', PStr ''flux''), (''param_vals'', PArr1 [0, 1]),
         (''system_params'', PDict [(''EJ'', PNum 3)]),
         (''data_names'', PKeys [''_get_data_dict'']),
         (''_get_data_dict'', PArr1 [1, 2])],
        \<lparr>meta = Some [(''param_name'', PStr ''flux''), (''param_vals'', PArr1 [0, 1]),
                      (''EJ'', PNum 3)],
         datasets = []\<rparr>, Some TypeError)"
  by (simp add: DataStore_new_def DataStore_params_def DataStore_init_def assign_def
      setattr_def py_contains_def serialize_def shadowed_def get_metadata_dict_def
      getattr_def metadata_as_is_def dict_update_def create_meta_def new_writer_def)

text \<open>
  C1, as amended.  Take a \<open>param_name\<close>, \<open>param_vals\<close>, a flat \<open>system_params\<close>
  mapping (distinct keys, none of them \<open>param_name\<close> or \<open>param_vals\<close>, returned
  unchanged by the metadata codec) and data fields of which none is absent and
  each is an array that the array conversion returns unchanged.  Let no field
  be named \<open>data_names\<close>, nor like a parameter of the constructor, nor
  \<open>__dict__\<close>, \<open>__class__\<close> or \<open>__weakref__\<close>, nor like one of the methods
  \<open>_serialize\<close>, \<open>_get_metadata_dict\<close> and \<open>_get_data_dict\<close>.  Then the constructor
  returns a store, serializing it into a fresh writer succeeds, and
  constructing a new \<open>DataStore\<close> from what the reader returns yields the
  original instance: the same \<open>param_name\<close>, \<open>param_vals\<close>, \<open>system_params\<close>,
  \<open>data_names\<close> and data fields.
\<close>

theorem roundtrip_identity:
  assumes kw_dict: "distinct (map fst kwargs)"
    and sp_dict: "distinct (map fst system_params)"
    and fresh: "set (map fst kwargs)
        \<inter> set (DataStore_params @ special_attributes @ serialize_methods) = {}"
    and no_clash: "''data_names'' \<notin> set (map fst kwargs)"
    and no_collision: "''param_name'' \<notin> set (map fst system_params)"
      "''param_vals'' \<notin> set (map fst system_params)"
    and flat: "process_metadata (PDict system_params) = system_params"
    and dense: "\<forall>(name, data) \<in> set kwargs. data \<noteq> PNone \<and> convert_to_ndarray data = data"
  shows "\<exists>store w from_file.
     DataStore_new param_name param_vals (PDict system_params) kwargs = Inr store
     \<and> serialize process_metadata convert_to_ndarray store new_writer = (store, w, None)
     \<and> read_file w = Some from_file
     \<and> init_from_data DataStore from_file = Inr store"
proof -
  let ?md = "[(''param_name'', param_name), (''param_vals'', param_vals)] @ system_params"
  let ?w = "\<lparr>meta = Some ?md, datasets = kwargs\<rparr>"
  let ?keys = "map fst kwargs"
  define store where "store = [(''param_name'', param_name), (''param_vals'', param_vals),
      (''system_params'', PDict system_params), (''data_names'', PKeys ?keys)] @ kwargs"
  from fresh have params: "set ?keys \<inter> set DataStore_params = {}"
    and special: "set ?keys \<inter> set special_attributes = {}"
    and methods: "set ?keys \<inter> set serialize_methods = {}"
    by auto
  from params no_clash have fixed:
    "set ?keys \<inter> {''param_name'', ''param_vals'', ''system_params'', ''data_names''} = {}"
    by (auto simp: DataStore_params_def)
  have built: "DataStore_new param_name param_vals (PDict system_params) kwargs = Inr store"
    using params
    by (simp add: DataStore_new_def DataStore_init_append [OF kw_dict special fixed] store_def)
  from methods have found: "\<not> shadowed store ''_serialize''"
    "\<not> shadowed store ''_get_metadata_dict''" "\<not> shadowed store ''_get_data_dict''"
    by (auto simp: shadowed_def serialize_methods_def store_def)
  have md: "get_metadata_dict process_metadata store = Inr ?md"
  proof -
    have "fold (\<lambda>(k, v) acc. AList.update k v acc) system_params
        [(''param_name'', param_name), (''param_vals'', param_vals)] = ?md"
      using sp_dict no_collision by (intro fold_update_fresh) auto
    then show ?thesis
      by (simp add: get_metadata_dict_def getattr_def flat dict_update_def store_def)
  qed
  have names: "getattr store ''data_names'' = Inr (PKeys ?keys)"
    by (simp add: getattr_def store_def)
  have "filter (\<lambda>(key, v). py_contains (PKeys ?keys) key = Inr True) kwargs = kwargs"
    by (rule filter_True) (force simp: py_contains_def)
  moreover have "\<not> py_contains (PKeys ?keys) k = Inr True"
    if "k \<in> {''param_name'', ''param_vals'', ''system_params'', ''data_names''}" for k
  proof -
    from that fixed have "k \<notin> set ?keys" by blast
    then show ?thesis by (simp add: py_contains_def)
  qed
  ultimately have "filter (\<lambda>(key, v). py_contains (PKeys ?keys) key = Inr True) store = kwargs"
    by (simp add: store_def)
  then have dd: "get_data_dict store = Inr kwargs"
    unfolding get_data_dict_def by (simp add: select_data_filter [OF names])
  have not_none: "filter value_not_none kwargs = kwargs"
    using dense by (intro filter_True) (auto simp: value_not_none_def)
  have as_is: "map (\<lambda>(data_name, data). (data_name, convert_to_ndarray data)) kwargs = kwargs"
    using dense by (intro map_idI) auto
  have written:
    "serialize process_metadata convert_to_ndarray store new_writer = (store, ?w, None)"
    by (simp add: serialize_def found md dd not_none fold_add_dataset as_is create_meta_def
        new_writer_def)
  have read: "read_file ?w = Some (?md, map fst kwargs, map snd kwargs)"
    by (simp add: read_file_def)
  have pop1: "dict_pop ?md ''param_name'' =
      Inr (param_name, (''param_vals'', param_vals) # system_params)"
    using no_collision by (simp add: dict_pop_def)
  have pop2: "dict_pop ((''param_vals'', param_vals) # system_params) ''param_vals'' =
      Inr (param_vals, system_params)"
    using no_collision by (simp add: dict_pop_def)
  have collected: "collect_data (map snd kwargs) 0 (map fst kwargs) [] = Inr kwargs"
    using collect_data_zip [OF kw_dict, of "[]" "[]"] by simp
  have rebuilt: "init_from_data DataStore (?md, map fst kwargs, map snd kwargs) = Inr store"
    using pop1 pop2 collected built by (simp add: cls_call_def)
  from built written read rebuilt show ?thesis by blast
qed

theorem roundtrip_identity_witness:
  "DataStore_new (PStr ''flux'') (PArr1 [0, 1]) (PDict [(''EJ'', PNum 3)])
      [(''evals'', PArr2 2 [[1, 2], [3, 4]]), (''b'', PArr1 [1, 2])]
     = Inr [(''param_name'', PStr ''flux''), (''param_vals'', PArr1 [0, 1]),
            (''system_params'', PDict [(''EJ'', PNum 3)]),
            (''data_names'', PKeys [''evals'', ''b'']),
            (''evals'', PArr2 2 [[1, 2], [3, 4]]), (''b'', PArr1 [1, 2])]
   \<and> serialize metadata_as_is array_as_is
       [(''param_name'', PStr ''flux''), (''param_vals'', PArr1 [0, 1]),
        (''system_params'', PDict [(''EJ'', PNum 3)]),
        (''data_names'', PKeys [''evals'', ''b'']),
        (''evals'', PArr2 2 [[1, 2], [3, 4]]), (''b'', PArr1 [1, 2])] new_writer
     = ([(''param_name'', PStr ''flux''), (''param_vals'', PArr1 [0, 1]),
         (''system_params'', PDict [(''EJ'', PNum 3)]),
         (''data_names'', PKeys [''evals'', ''b'']),
         (''evals'', PArr2 2 [[1, 2], [3, 4]]), (''b'', PArr1 [1, 2])],
        \<lparr>meta = Some [(''param_name'', PStr ''flux''), (''param_vals'', PArr1 [0, 1]),
                      (''EJ'', PNum 3)],
         datasets = [(''evals'', PArr2 2 [[1, 2], [3, 4]]), (''b'', PArr1 [1, 2])]\<rparr>, None)
   \<and> init_from_data DataStore
       ([(''param_name'', PStr ''flux''), (''param_vals'', PArr1 [0, 1]), (''EJ'', PNum 3)],
        [''evals'', ''b''], [PArr2 2 [[1, 2], [3, 4]], PArr1 [1, 2]])
     = Inr [(''param_name'', PStr ''flux''), (''param_vals'', PArr1 [0, 1]),
            (''system_params'', PDict [(''EJ'', PNum 3)]),
            (''data_names'', PKeys [''evals'', ''b'']),
            (''evals'', PArr2 2 [[1, 2], [3, 4]]), (''b'', PArr1 [1, 2])]"
proof -
  let ?kw = "[(''evals'', PArr2 2 [[1, 2], [3, 4]]), (''b'', PArr1 [1, 2])]"
  let ?sp = "[(''EJ'', PNum 3)]"
  let ?store = "[(''param_name'', PStr ''flux''), (''param_vals'', PArr1 [0, 1]),
            (''system_params'', PDict [(''EJ'', PNum 3)]),
            (''data_names'', PKeys [''evals'', ''b'']),
            (''evals'', PArr2 2 [[1, 2], [3, 4]]), (''b'', PArr1 [1, 2])]"
  have kw_dict: "distinct (map fst ?kw)" and sp_dict: "distinct (map fst ?sp)"
    and no_clash: "''data_names'' \<notin> set (map fst ?kw)"
    and no_collision: "''param_name'' \<notin> set (map fst ?sp)" "''param_vals'' \<notin> set (map fst ?sp)"
    by simp_all
  have fresh: "set (map fst ?kw)
      \<inter> set (DataStore_params @ special_attributes @ serialize_methods) = {}"
    by (simp add: DataStore_params_def special_attributes_def serialize_methods_def)
  have flat: "metadata_as_is (PDict ?sp) = ?sp" by (simp add: metadata_as_is_def)
  have dense: "\<forall>(name, data) \<in> set ?kw. data \<noteq> PNone \<and> array_as_is data = data"
    by (simp add: array_as_is_def)
  from roundtrip_identity [where process_metadata = metadata_as_is
      and convert_to_ndarray = array_as_is and param_name = "PStr ''flux''"
      and param_vals = "PArr1 [0, 1]", OF kw_dict sp_dict fresh no_clash no_collision
      flat dense]
  obtain store w from_file where
    b: "DataStore_new (PStr ''flux'') (PArr1 [0, 1]) (PDict ?sp) ?kw = Inr store"
    and w: "serialize metadata_as_is array_as_is store new_writer = (store, w, None)"
    and r: "read_file w = Some from_file"
    and i: "init_from_data DataStore from_file = Inr store"
    by blast
  have built: "DataStore_new (PStr ''flux'') (PArr1 [0, 1]) (PDict ?sp) ?kw = Inr ?store"
    by (simp add: DataStore_new_def DataStore_params_def DataStore_init_def assign_def
        setattr_def)
  with b have store: "store = ?store" by simp
  have "serialize metadata_as_is array_as_is ?store new_writer
     = (?store, \<lparr>meta = Some [(''param_name'', PStr ''flux''), (''param_vals'', PArr1 [0, 1]),
                      (''EJ'', PNum 3)],
         datasets = ?kw\<rparr>, None)"
    by (simp add: serialize_def shadowed_def get_metadata_dict_def get_data_dict_def
        getattr_def metadata_as_is_def array_as_is_def dict_update_def
        py_contains_def value_not_none_def create_meta_def add_dataset_def new_writer_def)
  with built w r i show ?thesis unfolding store by (auto simp: read_file_def)
qed

text \<open>
  C1 as stated fails for a numeric data field named \<open>data_names\<close>: the field
  replaces the name set, no attribute name is a member of the array, no dataset
  is written, and the reconstructed instance has an empty \<open>data_names\<close> in place
  of the field.  It fails as well for a numeric data field named \<open>_serialize\<close>:
  the field shadows the method, and serializing the store raises \<open>TypeError\<close>
  with nothing written.
\<close>

theorem roundtrip_identity_counterexample:
  "DataStore_new (PStr ''flux'') (PArr1 [0, 1]) (PDict [(''EJ'', PNum 3)])
      [(''data_names'', PArr1 [7, 8])]
     = Inr [(''param_name'', PStr ''flux''), (''param_vals'', PArr1 [0, 1]),
            (''system_params'', PDict [(''EJ'', PNum 3)]), (''data_names'', PArr1 [7, 8])]
   \<and> serialize metadata_as_is array_as_is
       [(''param_name'', PStr ''flux''), (''param_vals'', PArr1 [0, 1]),
        (''system_params'', PDict [(''EJ'', PNum 3)]), (''data_names'', PArr1 [7, 8])] new_writer
     = ([(''param_name'', PStr ''flux''), (''param_vals'', PArr1 [0, 1]),
         (''system_params'', PDict [(''EJ'', PNum 3)]), (''data_names'', PArr1 [7, 8])],
        \<lparr>meta = Some [(''param_name'', PStr ''flux''), (''param_vals'', PArr1 [0, 1]),
                      (''EJ'', PNum 3)],
         datasets = []\<rparr>, None)
   \<and> read_file \<lparr>meta = Some [(''param_name'', PStr ''flux''), (''param_vals'', PArr1 [0, 1]),
                      (''EJ'', PNum 3)],
         datasets = []\<rparr>
     = Some ([(''param_name'', PStr ''flux''), (''param_vals'', PArr1 [0, 1]), (''EJ'', PNum 3)],
             [], [])
   \<and> init_from_data DataStore
       ([(''param_name'', PStr ''flux''), (''param_vals'', PArr1 [0, 1]), (''EJ'', PNum 3)], [], [])
     = Inr [(''param_name'', PStr ''flux''), (''param_vals'', PArr1 [0, 1]),
            (''system_params'', PDict [(''EJ'', PNum 3)]), (''data_names'', PKeys [])]
   \<and> DataStore_new (PStr ''flux'') (PArr1 [0, 1]) (PDict [(''EJ'', PNum 3)])
      [(''_serialize'', PArr1 [1, 2])]
     = Inr [(''param_name'', PStr ''flux''), (''param_vals'', PArr1 [0, 1]),
            (''system_params'', PDict [(''EJ'', PNum 3)]),
            (''data_names'', PKeys [''_serialize'']), (''_serialize'', PArr1 [1, 2])]
   \<and> serialize metadata_as_is array_as_is
       [(''param_name'', PStr ''flux''), (''param_vals'', PArr1 [0, 1]),
        (''system_params'', PDict [(''EJ'', PNum 3)]),
        (''data_names'', PKeys [''_serialize'']), (''_serialize'', PArr1 [1, 2])] new_writer
     = ([(''param_name'', PStr ''flux''), (''param_vals'', PArr1 [0, 1]),
         (''system_params'', PDict [(''EJ'', PNum 3)]),
         (''data_names'', PKeys [''_serialize'']), (''_serialize'', PArr1 [1, 2])],
        new_writer, Some TypeError)"
  by (simp add: DataStore_new_def DataStore_params_def serialize_def shadowed_def
      get_metadata_dict_def get_data_dict_def DataStore_init_def assign_def setattr_def
      getattr_def metadata_as_is_def array_as_is_def dict_update_def py_contains_def
      value_not_none_def create_meta_def new_writer_def read_file_def dict_pop_def cls_call_def)

section \<open>Claims about construction from parts\<close>

lemma collect_data_total:
  "i + length name_list \<le> length data_list \<Longrightarrow>
   \<exists>data_dict. collect_data data_list i name_list acc = Inr data_dict"
proof (induction data_list i name_list acc rule: collect_data.induct)
  case (1 data_list i acc)
  then show ?case by simp
next
  case (2 data_list i name name_list acc)
  from "2.prems" have inside: "i < length data_list" by simp
  with "2.prems" have "\<exists>data_dict. collect_data data_list (Suc i) name_list
      (AList.update name (data_list ! i) acc) = Inr data_dict"
    by (intro "2.IH") simp_all
  with inside show ?case by simp
qed

text \<open>
  C4, as amended.  Take a metadata dict that has \<open>param_name\<close> and \<open>param_vals\<close>,
  a \<open>data_list\<close> at least as long as \<open>name_list\<close>, and a \<open>name_list\<close> that
  contains neither \<open>data_names\<close>, nor the name of a parameter of the
  constructor, nor \<open>__dict__\<close>, \<open>__class__\<close> or \<open>__weakref__\<close>.  Then
  \<open>_init_from_data\<close> with \<open>DataStore\<close> as the target class returns an instance
  whose \<open>data_names\<close> is a key view of exactly the names in \<open>name_list\<close>; when the
  names are distinct, each is an entry of the instance's namespace holding the
  entry of \<open>data_list\<close> at its position.
\<close>

theorem construct_data_names:
  assumes name: "map_of metadata_dict ''param_name'' = Some pn"
    and vals: "map_of metadata_dict ''param_vals'' = Some pv"
    and enough: "length name_list \<le> length data_list"
    and accepted: "set name_list \<inter> set (DataStore_params @ special_attributes) = {}"
    and no_clash: "''data_names'' \<notin> set name_list"
  shows "\<exists>store names.
     init_from_data DataStore (metadata_dict, name_list, data_list) = Inr store
     \<and> getattr store ''data_names'' = Inr (PKeys names)
     \<and> set names = set name_list \<and> distinct names
     \<and> (distinct name_list \<longrightarrow>
          (\<forall>i<length name_list. map_of store (name_list ! i) = Some (data_list ! i)))"
proof -
  let ?sp = "PDict (AList.delete ''param_vals'' (AList.delete ''param_name'' metadata_dict))"
  from enough obtain data_dict where
    collected: "collect_data data_list 0 name_list [] = Inr data_dict"
    using collect_data_total [of 0 name_list data_list "[]"] by auto
  have keys: "set (map fst data_dict) = set name_list"
    using collect_data_keys [OF collected] by simp
  have dict: "distinct (map fst data_dict)"
    using collect_data_distinct [OF collected] by simp
  define store where "store = fold (\<lambda>(key, v) acc. AList.update key v acc) data_dict
      [(''param_name'', pn), (''param_vals'', pv), (''system_params'', ?sp),
       (''data_names'', PKeys (map fst data_dict))]"
  from accepted keys have params: "set (map fst data_dict) \<inter> set DataStore_params = {}"
    and special: "set (map fst data_dict) \<inter> set special_attributes = {}"
    by auto
  have new: "DataStore_new pn pv ?sp data_dict = Inr store"
    unfolding store_def by (rule DataStore_new_plain [OF params special])
  have pop2: "map_of (AList.delete ''param_name'' metadata_dict) ''param_vals'' = Some pv"
    using vals by simp
  have built: "init_from_data DataStore (metadata_dict, name_list, data_list) = Inr store"
    using name pop2 collected new by (simp add: dict_pop_def cls_call_def)
  from no_clash keys have "''data_names'' \<notin> set (map fst data_dict)" by simp
  then have names: "getattr store ''data_names'' = Inr (PKeys (map fst data_dict))"
    by (simp add: store_def getattr_def map_of_fold_update_other)
  have bound: "map_of store (name_list ! i) = Some (data_list ! i)"
    if "distinct name_list" "i < length name_list" for i
  proof -
    from collect_data_nth [OF collected that]
    have "map_of data_dict (name_list ! i) = Some (data_list ! i)" by simp
    then have "(name_list ! i, data_list ! i) \<in> set data_dict" by (rule map_of_SomeD)
    with dict show ?thesis unfolding store_def by (rule map_of_fold_update_member)
  qed
  from built names keys dict bound show ?thesis by blast
qed

theorem construct_data_names_witness:
  "map_of [(''param_name'', PStr ''flux''), (''param_vals'', PArr1 [0, 1]), (''EJ'', PNum 3)]
      ''param_name'' = Some (PStr ''flux'')
   \<and> length [''evals'', ''b''] \<le> length [PArr2 2 [[1, 2], [3, 4]], PArr1 [1, 2]]
   \<and> set [''evals'', ''b''] \<inter> set (DataStore_params @ special_attributes) = {}
   \<and> ''data_names'' \<notin> set [''evals'', ''b'']
   \<and> init_from_data DataStore
      ([(''param_name'', PStr ''flux''), (''param_vals'', PArr1 [0, 1]), (''EJ'', PNum 3)],
       [''evals'', ''b''], [PArr2 2 [[1, 2], [3, 4]], PArr1 [1, 2]])
     = Inr [(''param_name'', PStr ''flux''), (''param_vals'', PArr1 [0, 1]),
            (''system_params'', PDict [(''EJ'', PNum 3)]),
            (''data_names'', PKeys [''evals'', ''b'']),
            (''evals'', PArr2 2 [[1, 2], [3, 4]]), (''b'', PArr1 [1, 2])]
   \<and> (\<exists>names. getattr [(''param_name'', PStr ''flux''), (''param_vals'', PArr1 [0, 1]),
            (''system_params'', PDict [(''EJ'', PNum 3)]),
            (''data_names'', PKeys [''evals'', ''b'']),
            (''evals'', PArr2 2 [[1, 2], [3, 4]]), (''b'', PArr1 [1, 2])] ''data_names''
                = Inr (PKeys names)
         \<and> set names = set [''evals'', ''b''])"
proof -
  let ?md = "[(''param_name'', PStr ''flux''), (''param_vals'', PArr1 [0, 1]), (''EJ'', PNum 3)]"
  let ?store = "[(''param_name'', PStr ''flux''), (''param_vals'', PArr1 [0, 1]),
            (''system_params'', PDict [(''EJ'', PNum 3)]),
            (''data_names'', PKeys [''evals'', ''b'']),
            (''evals'', PArr2 2 [[1, 2], [3, 4]]), (''b'', PArr1 [1, 2])]"
  have name: "map_of ?md ''param_name'' = Some (PStr ''flux'')"
    and vals: "map_of ?md ''param_vals'' = Some (PArr1 [0, 1])"
    and enough: "length [''evals'', ''b''] \<le> length [PArr2 2 [[1, 2], [3, 4]], PArr1 [1, 2]]"
    and no_clash: "''data_names'' \<notin> set [''evals'', ''b'']"
    by simp_all
  have accepted: "set [''evals'', ''b''] \<inter> set (DataStore_params @ special_attributes) = {}"
    by (simp add: DataStore_params_def special_attributes_def)
  from construct_data_names [OF name vals enough accepted no_clash]
  obtain store names where
    b: "init_from_data DataStore (?md, [''evals'', ''b''],
          [PArr2 2 [[1, 2], [3, 4]], PArr1 [1, 2]]) = Inr store"
    and n: "getattr store ''data_names'' = Inr (PKeys names)"
    and s: "set names = set [''evals'', ''b'']"
    by blast
  have built: "init_from_data DataStore (?md, [''evals'', ''b''],
          [PArr2 2 [[1, 2], [3, 4]], PArr1 [1, 2]]) = Inr ?store"
    by (simp add: dict_pop_def cls_call_def DataStore_new_def DataStore_params_def
        DataStore_init_def assign_def setattr_def)
  with b have "store = ?store" by simp
  with n s have "\<exists>names. getattr ?store ''data_names'' = Inr (PKeys names)
      \<and> set names = set [''evals'', ''b'']" by blast
  with name enough accepted no_clash built show ?thesis by blast
qed

text \<open>
  C4 as stated fails.  With \<open>SpectrumData\<close> as the target class the dataset names
  reach \<open>SpectrumData.__init__\<close>, which passes none of them to the base
  initialiser: \<open>data_names\<close> is empty although \<open>name_list\<close> holds \<open>energy_table\<close>.
  With \<open>DataStore\<close> as the target class, a dataset named \<open>data_names\<close> replaces
  the name set, and a dictionary stored under the name \<open>__dict__\<close> replaces the
  namespace, \<open>data_names\<close> included.  No instance results at all from a
  \<open>data_list\<close> shorter than \<open>name_list\<close>, from a dataset named like a parameter
  of the constructor, or from one named \<open>__class__\<close>.
\<close>

theorem construct_data_names_counterexample:
  "init_from_data SpectrumData
      ([(''param_name'', PStr ''flux''), (''param_vals'', PArr1 [0, 1])],
       [''energy_table''], [PArr2 3 [[1, 2, 3], [4, 5, 6]]])
     = Inr [(''param_name'', PStr ''flux''), (''param_vals'', PArr1 [0, 1]),
            (''system_params'', PDict []), (''data_names'', PKeys []),
            (''energy_table'', PArr2 3 [[1, 2, 3], [4, 5, 6]]),
            (''state_table'', PNone), (''matrixelem_table'', PNone)]
   \<and> init_from_data DataStore
      ([(''param_name'', PStr ''flux''), (''param_vals'', PArr1 [0, 1])],
       [''data_names''], [PArr1 [7, 8]])
     = Inr [(''param_name'', PStr ''flux''), (''param_vals'', PArr1 [0, 1]),
            (''system_params'', PDict []), (''data_names'', PArr1 [7, 8])]
   \<and> init_from_data DataStore
      ([(''param_name'', PStr ''flux''), (''param_vals'', PArr1 [0, 1])],
       [''__dict__''], [PDict [(''x'', PNum 1)]])
     = Inr [(''x'', PNum 1)]
   \<and> init_from_data DataStore
      ([(''param_name'', PStr ''flux''), (''param_vals'', PArr1 [0, 1])],
       [''a'', ''b''], [PArr1 [1]])
     = Inl IndexError
   \<and> init_from_data DataStore
      ([(''param_name'', PStr ''flux''), (''param_vals'', PArr1 [0, 1])],
       [''param_name''], [PArr1 [1]])
     = Inl TypeError
   \<and> init_from_data DataStore
      ([(''param_name'', PStr ''flux''), (''param_vals'', PArr1 [0, 1])],
       [''__class__''], [PArr1 [1]])
     = Inl TypeError"
  by (simp add: dict_pop_def cls_call_def SpectrumData_tables_def keyword_or_None_def
      SpectrumData_init_def DataStore_new_def DataStore_params_def DataStore_init_def
      assign_def setattr_def)

section \<open>Claims about \<open>subtract_ground\<close>\<close>

text \<open>
  What the statement \<open>self.energy_table -= self.energy_table[:, 0]\<close> does on a
  table with \<open>n\<close> rows and \<open>ncols > 0\<close> columns: the first column, of length \<open>n\<close>,
  is aligned with the last axis.  Unless \<open>n = ncols\<close> or \<open>n = 1\<close> the shapes do not
  fit and the table is left as it was; on a square table entry \<open>(i, j)\<close> loses the
  ground energy of row \<open>j\<close>; on a single row the result is the spec's transform.
\<close>

lemma subtract_ground_shape_mismatch:
  assumes "\<not> shadowed self ''subtract_ground''"
    and "getattr self ''energy_table'' = Inr (PArr2 ncols rows)"
    and "0 < ncols" and "length rows \<noteq> ncols" and "length rows \<noteq> 1"
  shows "subtract_ground SpectrumData self = (self, Some ValueError)"
  using assms by (simp add: subtract_ground_def broadcast_isub_def)

lemma subtract_ground_square:
  assumes "\<not> shadowed self ''subtract_ground''"
    and "getattr self ''energy_table'' = Inr (PArr2 ncols rows)"
    and "0 < ncols" and "length rows = ncols"
  shows "subtract_ground SpectrumData self =
     (assign self ''energy_table''
        (PArr2 ncols (map (\<lambda>row. map2 (-) row (map (\<lambda>r. r ! 0) rows)) rows)), None)"
  using assms by (simp add: subtract_ground_def broadcast_isub_def)

lemma subtract_ground_single_row:
  assumes "\<not> shadowed self ''subtract_ground''"
    and "getattr self ''energy_table'' = Inr (PArr2 ncols [row])"
    and "0 < ncols" and "length row = ncols"
  shows "subtract_ground SpectrumData self =
     (assign self ''energy_table'' (PArr2 ncols (subtract_ground_spec [row])), None)"
proof (cases "ncols = 1")
  case True
  with assms obtain x where "row = [x]" by (cases row) auto
  with assms True show ?thesis
    by (simp add: subtract_ground_def broadcast_isub_def subtract_ground_spec_def)
next
  case False
  with assms show ?thesis
    by (simp add: subtract_ground_def broadcast_isub_def subtract_ground_spec_def)
qed

lemma subtract_ground_square_example:
  "subtract_ground SpectrumData
      [(''param_name'', PStr ''flux''), (''param_vals'', PArr1 [0, 1]),
       (''system_params'', PDict []), (''data_names'', PKeys []),
       (''energy_table'', PArr2 2 [[1, 2], [4, 6]]),
       (''state_table'', PNone), (''matrixelem_table'', PNone)]
     = ([(''param_name'', PStr ''flux''), (''param_vals'', PArr1 [0, 1]),
         (''system_params'', PDict []), (''data_names'', PKeys []),
         (''energy_table'', PArr2 2 [[0, - 2], [3, 2]]),
         (''state_table'', PNone), (''matrixelem_table'', PNone)], None)
   \<and> subtract_ground_spec [[1, 2], [4, 6]] = [[0, 1], [0, 2]]"
  by (simp add: subtract_ground_def shadowed_def broadcast_isub_def subtract_ground_spec_def
      assign_def getattr_def)

text \<open>
  C2.  The claim has \<open>subtract_ground()\<close> turn \<open>[[1,2,3],[4,5,6]]\<close> into
  \<open>[[0,1,2],[0,1,2]]\<close>, which is the value of the spec's transform.  The code
  raises \<open>ValueError\<close> on this table, two rows of three columns, and leaves it
  unchanged.
\<close>

theorem subtract_ground_example:
  "SpectrumData_init (PStr ''flux'') (PArr1 [0, 1]) (PArr2 3 [[1, 2, 3], [4, 5, 6]])
      (PDict []) PNone PNone
     = Inr [(''param_name'', PStr ''flux''), (''param_vals'', PArr1 [0, 1]),
            (''system_params'', PDict []), (''data_names'', PKeys []),
            (''energy_table'', PArr2 3 [[1, 2, 3], [4, 5, 6]]),
            (''state_table'', PNone), (''matrixelem_table'', PNone)]
   \<and> subtract_ground SpectrumData
       [(''param_name'', PStr ''flux''), (''param_vals'', PArr1 [0, 1]),
        (''system_params'', PDict []), (''data_names'', PKeys []),
        (''energy_table'', PArr2 3 [[1, 2, 3], [4, 5, 6]]),
        (''state_table'', PNone), (''matrixelem_table'', PNone)]
     = ([(''param_name'', PStr ''flux''), (''param_vals'', PArr1 [0, 1]),
         (''system_params'', PDict []), (''data_names'', PKeys []),
         (''energy_table'', PArr2 3 [[1, 2, 3], [4, 5, 6]]),
         (''state_table'', PNone), (''matrixelem_table'', PNone)], Some ValueError)
   \<and> subtract_ground_spec [[1, 2, 3], [4, 5, 6]] = [[0, 1, 2], [0, 1, 2]]"
  by (simp add: subtract_ground_def shadowed_def broadcast_isub_def subtract_ground_spec_def
      SpectrumData_init_def DataStore_init_def assign_def getattr_def)

end
